theory Spec2Isabelle
  imports Complex_Main "HOL-Library.AList"
begin

section \<open>Python values, exceptions and the HTTP boundary\<close>

text \<open>
  The program (\<^verbatim>\<open>src/app.py\<close>) handles values decoded from JSON and cells read from a
  CSV column. Both are dynamically typed, and several branches of the code depend on the
  run-time type (\<^verbatim>\<open>.get\<close> exists on a dict only, \<^verbatim>\<open>.lower\<close> on a str only), so the
  values are a datatype. A dict is an association list in insertion order: storing a
  key replaces its entry in place or adds one at the end (\<open>AList.update\<close>), and a
  lookup reads the first entry of the key (\<open>map_of\<close>), so no result depends on a key
  standing twice in a list. A float is a rational or one of the three non-finite values.
\<close>

datatype pyfloat = Finite rat | PosInf | NegInf | NaN

datatype pyval =
    PNone
  | PBool bool
  | PInt int
  | PFloat pyfloat
  | PStr string
  | PList "pyval list"
  | PDict "(string \<times> pyval) list"

type_synonym dict = "(string \<times> pyval) list"

text \<open>
  Exceptions the interpreter raises on a value of the wrong type, and exceptions that
  come from outside (\<^verbatim>\<open>requests\<close> on a network failure, \<^verbatim>\<open>response.json()\<close> on a body
  that is not JSON), which carry the text that \<^verbatim>\<open>str(e)\<close> gives.
\<close>

datatype py_exn =
    AttributeError string string
  | TypeError string
  | KeyError string
  | RemoteException string

fun type_name :: "pyval \<Rightarrow> string" where
  "type_name PNone = ''NoneType''"
| "type_name (PBool b) = ''bool''"
| "type_name (PInt i) = ''int''"
| "type_name (PFloat f) = ''float''"
| "type_name (PStr s) = ''str''"
| "type_name (PList xs) = ''list''"
| "type_name (PDict d) = ''dict''"

text \<open>\<^verbatim>\<open>str(e)\<close>; the wording of a TypeError is the one of CPython 3.11.\<close>

fun str_exn :: "py_exn \<Rightarrow> string" where
  "str_exn (AttributeError t a) = [CHR 0x27] @ t @ [CHR 0x27] @ '' object has no attribute '' @ [CHR 0x27] @ a @ [CHR 0x27]"
| "str_exn (TypeError m) = m"
| "str_exn (KeyError k) = [CHR 0x27] @ k @ [CHR 0x27]"
| "str_exn (RemoteException m) = m"

text \<open>Truth value testing (\<^verbatim>\<open>if v\<close>, \<^verbatim>\<open>not v\<close>).\<close>

fun py_truthy :: "pyval \<Rightarrow> bool" where
  "py_truthy PNone = False"
| "py_truthy (PBool b) = b"
| "py_truthy (PInt i) = (i \<noteq> 0)"
| "py_truthy (PFloat f) = (f \<noteq> Finite 0)"
| "py_truthy (PStr s) = (s \<noteq> [])"
| "py_truthy (PList xs) = (xs \<noteq> [])"
| "py_truthy (PDict d) = (d \<noteq> [])"

text \<open>\<^verbatim>\<open>d.get(k, dflt)\<close> on a dict.\<close>

definition dict_get :: "dict \<Rightarrow> string \<Rightarrow> pyval \<Rightarrow> pyval" where
  "dict_get d k dflt = (case map_of d k of Some v \<Rightarrow> v | None \<Rightarrow> dflt)"

text \<open>
  \<^verbatim>\<open>s.lower()\<close> is a method of Python's \<^verbatim>\<open>str\<close>; its case mapping (the Unicode tables of
  the interpreter) is not part of the program. Every function that lowers a string takes
  the mapping as its parameter \<open>lower\<close>, and every property below is proved for every
  such mapping, so also for the one of the interpreter that runs the program.

  To run the program on the small directory further below, whose names are ASCII, the
  parameter is set to \<open>ascii_lower\<close>: on ASCII text \<^verbatim>\<open>str.lower\<close> folds the letters A to Z
  and keeps every other character.
\<close>

definition lower_char :: "char \<Rightarrow> char" where
  "lower_char c =
     (if (65::nat) \<le> of_char c \<and> of_char c \<le> (90::nat) then char_of (of_char c + (32::nat)) else c)"

definition ascii_lower :: "string \<Rightarrow> string" where
  "ascii_lower s = map lower_char s"

text \<open>\<^verbatim>\<open>v.lower()\<close> on any value: only a str has the method.\<close>

fun py_lower :: "(string \<Rightarrow> string) \<Rightarrow> pyval \<Rightarrow> py_exn + string" where
  "py_lower lower (PStr s) = Inr (lower s)"
| "py_lower lower v = Inl (AttributeError (type_name v) ''lower'')"

text \<open>\<^verbatim>\<open>for x in v\<close>: the elements the loop visits, or the TypeError of a value that is not iterable.\<close>

fun py_iter :: "pyval \<Rightarrow> py_exn + pyval list" where
  "py_iter (PList xs) = Inr xs"
| "py_iter (PDict d) = Inr (map (\<lambda>kv. PStr (fst kv)) d)"
| "py_iter (PStr s) = Inr (map (\<lambda>c. PStr [c]) s)"
| "py_iter v = Inl (TypeError ([CHR 0x27] @ type_name v @ [CHR 0x27] @ '' object is not iterable''))"

section \<open>The payload sanitizer (\<^verbatim>\<open>sanitize_user_data\<close>, lines 94-98)\<close>

definition allowed :: "string list" where
  "allowed = [''Id'', ''FirstName'', ''LastName'', ''Email'', ''Active'', ''UserName'']"

text \<open>\<^verbatim>\<open>k in s\<close> for two strings: \<open>k\<close> occurs in \<open>s\<close> as a contiguous piece.\<close>

fun str_contains :: "string \<Rightarrow> string \<Rightarrow> bool" where
  "str_contains [] k = (k = [])"
| "str_contains (c # cs) k = (take (length k) (c # cs) = k \<or> str_contains cs k)"

text \<open>
  \<^verbatim>\<open>k in user_data\<close> for a string \<open>k\<close>: key membership on a dict, element membership on a
  list, substring test on a str, TypeError on anything else.
\<close>

fun py_contains :: "pyval \<Rightarrow> string \<Rightarrow> py_exn + bool" where
  "py_contains (PDict d) k = Inr (k \<in> set (map fst d))"
| "py_contains (PList xs) k = Inr (PStr k \<in> set xs)"
| "py_contains (PStr s) k = Inr (str_contains s k)"
| "py_contains v k = Inl (TypeError (''argument of type '' @ [CHR 0x27] @ type_name v @ [CHR 0x27] @ '' is not iterable''))"

text \<open>\<^verbatim>\<open>user_data[k]\<close> for a string \<open>k\<close>.\<close>

fun py_subscript :: "pyval \<Rightarrow> string \<Rightarrow> py_exn + pyval" where
  "py_subscript (PDict d) k = (case map_of d k of Some v \<Rightarrow> Inr v | None \<Rightarrow> Inl (KeyError k))"
| "py_subscript (PList xs) k = Inl (TypeError ''list indices must be integers or slices, not str'')"
| "py_subscript (PStr s) k = Inl (TypeError (''string indices must be integers, not '' @ [CHR 0x27] @ ''str'' @ [CHR 0x27]))"
| "py_subscript v k = Inl (TypeError ([CHR 0x27] @ type_name v @ [CHR 0x27] @ '' object is not subscriptable''))"

text \<open>
  The dict comprehension of line 96, \<^verbatim>\<open>{k: user_data[k] for k in allowed if k in user_data}\<close>:
  the keys are visited in order, each kept key is stored into the dict built so far, and
  the first exception ends the comprehension.
\<close>

fun comprehension :: "pyval \<Rightarrow> string list \<Rightarrow> dict \<Rightarrow> py_exn + dict" where
  "comprehension user_data [] clean = Inr clean"
| "comprehension user_data (k # ks) clean =
     (case py_contains user_data k of
        Inl e \<Rightarrow> Inl e
      | Inr present \<Rightarrow>
          if present then
            (case py_subscript user_data k of
               Inl e \<Rightarrow> Inl e
             | Inr v \<Rightarrow> comprehension user_data ks (AList.update k v clean))
          else comprehension user_data ks clean)"

definition sanitize_user_data :: "pyval \<Rightarrow> bool \<Rightarrow> py_exn + dict" where
  "sanitize_user_data user_data active_status =
     (case comprehension user_data allowed [] of
        Inl e \<Rightarrow> Inl e
      | Inr clean \<Rightarrow> Inr (AList.update ''Active'' (PBool active_status) clean))"

text \<open>
  Lines 169-172 of \<^verbatim>\<open>deactivate_user\<close>: the sanitized record with the three location
  fields stored as empty strings.
\<close>

definition deactivation_payload :: "pyval \<Rightarrow> py_exn + dict" where
  "deactivation_payload user_data =
     (case sanitize_user_data user_data False of
        Inl e \<Rightarrow> Inl e
      | Inr update_data \<Rightarrow>
          Inr (AList.update ''Country'' (PStr '''')
                (AList.update ''Area'' (PStr '''')
                  (AList.update ''Region'' (PStr '''') update_data))))"

section \<open>The directory's HTTP interface\<close>

text \<open>
  The five requests the program sends, named by what they address. The f-strings that
  build the URLs are kept as the values they interpolate: the username of the search,
  the user id, the team id. The body of the PUT is the dict handed to \<^verbatim>\<open>json.dumps\<close>.
\<close>

datatype request =
    SearchUsers pyval
  | GetUserDetails pyval
  | PutUser pyval dict
  | GetUserTeams pyval
  | DeleteTeamUser pyval pyval

text \<open>
  What the program reads of a \<^verbatim>\<open>requests\<close> response: \<^verbatim>\<open>status_code\<close>, \<^verbatim>\<open>text\<close> and the
  outcome of \<^verbatim>\<open>json()\<close>, which raises on a body that is not JSON.
\<close>

record response =
  status_code :: int
  text_of :: string
  json_of :: "py_exn + pyval"

text \<open>
  The remote directory is a parameter: a function from a request and the state of the
  outside world to the outcome of the call (an exception raised by \<^verbatim>\<open>requests\<close>, or a
  response) and the next state. Every call returns; a call that blocks forever is outside
  the model. The program's state is the world together with the log of the exchanges made
  so far, oldest first.
\<close>

type_synonym 'w http = "request \<Rightarrow> 'w \<Rightarrow> (py_exn + response) \<times> 'w"

type_synonym exchange = "request \<times> (py_exn + response)"

type_synonym 'w net = "'w \<times> exchange list"

definition send :: "'w http \<Rightarrow> request \<Rightarrow> 'w net \<Rightarrow> (py_exn + response) \<times> 'w net" where
  "send http rq s = (case http rq (fst s) of (out, w') \<Rightarrow> (out, (w', snd s @ [(rq, out)])))"

record op_result =
  username :: pyval
  success :: bool
  message :: string

section \<open>Looking a user up (lines 108-109 and 149-150)\<close>

text \<open>
  \<^verbatim>\<open>next((u for u in users if u.get("UserName", "").lower() == username.lower()), None)\<close>:
  the candidates are visited in order; the first whose name matches is the result, and
  the first exception (a candidate that is not a dict, a name or a username that is not
  a str) ends the search.
\<close>

fun first_match :: "(string \<Rightarrow> string) \<Rightarrow> pyval list \<Rightarrow> pyval \<Rightarrow> py_exn + dict option" where
  "first_match lower [] uname = Inr None"
| "first_match lower (u # us) uname =
     (case u of
        PDict d \<Rightarrow>
          (case py_lower lower (dict_get d ''UserName'' (PStr [])) of
             Inl e \<Rightarrow> Inl e
           | Inr name \<Rightarrow>
               (case py_lower lower uname of
                  Inl e \<Rightarrow> Inl e
                | Inr wanted \<Rightarrow> if name = wanted then Inr (Some d) else first_match lower us uname))
      | _ \<Rightarrow> Inl (AttributeError (type_name u) ''get''))"

definition find_user_by_username :: "(string \<Rightarrow> string) \<Rightarrow> pyval \<Rightarrow> pyval \<Rightarrow> py_exn + dict option" where
  "find_user_by_username lower users uname =
     (case py_iter users of Inl e \<Rightarrow> Inl e | Inr us \<Rightarrow> first_match lower us uname)"

text \<open>\<^verbatim>\<open>if not user\<close>: \<^verbatim>\<open>None\<close> and the empty dict are both false.\<close>

definition user_truthy :: "dict option \<Rightarrow> bool" where
  "user_truthy user = (case user of None \<Rightarrow> False | Some u \<Rightarrow> py_truthy (PDict u))"

section \<open>Activation (\<^verbatim>\<open>activate_user\<close>, lines 100-139)\<close>

text \<open>
  The function is modelled in two blocks, in the order of the source. \<open>Inl\<close> is an
  exception on its way to the handler of line 137; \<open>Inr\<close> is a value the function
  returns. The second block is lines 119-135: fetch the details, sanitize, update.
\<close>

definition activate_update :: "'w http \<Rightarrow> pyval \<Rightarrow> pyval \<Rightarrow> 'w net \<Rightarrow> (py_exn + op_result) \<times> 'w net" where
  "activate_update http uname user_id s1 =
     (case send http (GetUserDetails user_id) s1 of
        (Inl e, s2) \<Rightarrow> (Inl e, s2)
      | (Inr get_response, s2) \<Rightarrow>
          if status_code get_response \<noteq> 200 then
            (Inr \<lparr>username = uname, success = False,
                   message = ''Failed to get user details: '' @ text_of get_response\<rparr>, s2)
          else
            (case json_of get_response of
               Inl e \<Rightarrow> (Inl e, s2)
             | Inr user_data \<Rightarrow>
                 (case sanitize_user_data user_data True of
                    Inl e \<Rightarrow> (Inl e, s2)
                  | Inr update_data \<Rightarrow>
                      (case send http (PutUser user_id update_data) s2 of
                         (Inl e, s3) \<Rightarrow> (Inl e, s3)
                       | (Inr update_response, s3) \<Rightarrow>
                           if status_code update_response \<in> {200, 201, 204} then
                             (Inr \<lparr>username = uname, success = True,
                                    message = ''User activated successfully''\<rparr>, s3)
                           else
                             (Inr \<lparr>username = uname, success = False,
                                    message = ''Failed to activate user: '' @ text_of update_response\<rparr>, s3)))))"

text \<open>The body of the \<^verbatim>\<open>try\<close>, lines 102-117, continued by the block above.\<close>

definition activate_try ::
  "(string \<Rightarrow> string) \<Rightarrow> 'w http \<Rightarrow> pyval \<Rightarrow> 'w net \<Rightarrow> (py_exn + op_result) \<times> 'w net" where
  "activate_try lower http uname s =
     (case send http (SearchUsers uname) s of
        (Inl e, s1) \<Rightarrow> (Inl e, s1)
      | (Inr response, s1) \<Rightarrow>
          if status_code response \<noteq> 200 then
            (Inr \<lparr>username = uname, success = False,
                   message = ''Failed to find user: '' @ text_of response\<rparr>, s1)
          else
            (case json_of response of
               Inl e \<Rightarrow> (Inl e, s1)
             | Inr users \<Rightarrow>
                 (case find_user_by_username lower users uname of
                    Inl e \<Rightarrow> (Inl e, s1)
                  | Inr user \<Rightarrow>
                      if \<not> user_truthy user then
                        (Inr \<lparr>username = uname, success = False, message = ''User not found''\<rparr>, s1)
                      else if py_truthy (dict_get (the user) ''Active'' (PBool False)) then
                        (Inr \<lparr>username = uname, success = False,
                               message = ''Error: User is already active. Duplicate activation attempt.''\<rparr>, s1)
                      else activate_update http uname (dict_get (the user) ''Id'' PNone) s1)))"

text \<open>The function with its handler: every exception becomes a failed result.\<close>

definition activate_user ::
  "(string \<Rightarrow> string) \<Rightarrow> 'w http \<Rightarrow> pyval \<Rightarrow> 'w net \<Rightarrow> op_result \<times> 'w net" where
  "activate_user lower http uname s =
     (case activate_try lower http uname s of
        (Inl e, s') \<Rightarrow> (\<lparr>username = uname, success = False, message = ''Error: '' @ str_exn e\<rparr>, s')
      | (Inr result, s') \<Rightarrow> (result, s'))"

section \<open>Deactivation (\<^verbatim>\<open>deactivate_user\<close>, lines 141-202)\<close>

text \<open>
  The loop of lines 185-190 over the teams: a team that is not a dict has no \<^verbatim>\<open>get\<close>, a
  DELETE that raises ends the loop with its exception, and the status of a DELETE that
  returns is only logged (the logger is not part of the model), so the loop goes on
  whatever it is. \<open>None\<close> says that the loop ran to its end.
\<close>

fun remove_from_teams :: "'w http \<Rightarrow> pyval \<Rightarrow> pyval list \<Rightarrow> 'w net \<Rightarrow> py_exn option \<times> 'w net" where
  "remove_from_teams http user_id [] s = (None, s)"
| "remove_from_teams http user_id (team # teams) s =
     (case team of
        PDict d \<Rightarrow>
          (let team_id = dict_get d ''Id'' PNone in
           case send http (DeleteTeamUser team_id user_id) s of
             (Inl e, s') \<Rightarrow> (Some e, s')
           | (Inr remove_response, s') \<Rightarrow> remove_from_teams http user_id teams s')
      | _ \<Rightarrow> (Some (AttributeError (type_name team) ''get''), s))"

text \<open>
  Lines 180-198: list the teams, remove the user from each, and return the success
  result. A listing with a status other than 200 is only logged.
\<close>

definition team_cleanup :: "'w http \<Rightarrow> pyval \<Rightarrow> pyval \<Rightarrow> 'w net \<Rightarrow> (py_exn + op_result) \<times> 'w net" where
  "team_cleanup http uname user_id s3 =
     (case send http (GetUserTeams user_id) s3 of
        (Inl e, s4) \<Rightarrow> (Inl e, s4)
      | (Inr teams_response, s4) \<Rightarrow>
          if status_code teams_response = 200 then
            (case json_of teams_response of
               Inl e \<Rightarrow> (Inl e, s4)
             | Inr teams \<Rightarrow>
                 (case py_iter teams of
                    Inl e \<Rightarrow> (Inl e, s4)
                  | Inr ts \<Rightarrow>
                      (case remove_from_teams http user_id ts s4 of
                         (Some e, s5) \<Rightarrow> (Inl e, s5)
                       | (None, s5) \<Rightarrow>
                           (Inr \<lparr>username = uname, success = True,
                                  message = ''User deactivated, removed from all teams, and profile data cleared''\<rparr>, s5))))
          else
            (Inr \<lparr>username = uname, success = True,
                   message = ''User deactivated, removed from all teams, and profile data cleared''\<rparr>, s4))"

text \<open>Lines 160-178: fetch the details, build the payload, update; then the block above.\<close>

definition deactivate_update :: "'w http \<Rightarrow> pyval \<Rightarrow> pyval \<Rightarrow> 'w net \<Rightarrow> (py_exn + op_result) \<times> 'w net" where
  "deactivate_update http uname user_id s1 =
     (case send http (GetUserDetails user_id) s1 of
        (Inl e, s2) \<Rightarrow> (Inl e, s2)
      | (Inr get_response, s2) \<Rightarrow>
          if status_code get_response \<noteq> 200 then
            (Inr \<lparr>username = uname, success = False,
                   message = ''Failed to get user details: '' @ text_of get_response\<rparr>, s2)
          else
            (case json_of get_response of
               Inl e \<Rightarrow> (Inl e, s2)
             | Inr user_data \<Rightarrow>
                 (case deactivation_payload user_data of
                    Inl e \<Rightarrow> (Inl e, s2)
                  | Inr update_data \<Rightarrow>
                      (case send http (PutUser user_id update_data) s2 of
                         (Inl e, s3) \<Rightarrow> (Inl e, s3)
                       | (Inr update_response, s3) \<Rightarrow>
                           if status_code update_response \<notin> {200, 201, 204} then
                             (Inr \<lparr>username = uname, success = False,
                                    message = ''Failed to deactivate user: '' @ text_of update_response\<rparr>, s3)
                           else team_cleanup http uname user_id s3))))"

text \<open>The body of the \<^verbatim>\<open>try\<close>, lines 143-158, continued by the block above.\<close>

definition deactivate_try ::
  "(string \<Rightarrow> string) \<Rightarrow> 'w http \<Rightarrow> pyval \<Rightarrow> 'w net \<Rightarrow> (py_exn + op_result) \<times> 'w net" where
  "deactivate_try lower http uname s =
     (case send http (SearchUsers uname) s of
        (Inl e, s1) \<Rightarrow> (Inl e, s1)
      | (Inr response, s1) \<Rightarrow>
          if status_code response \<noteq> 200 then
            (Inr \<lparr>username = uname, success = False,
                   message = ''Failed to find user: '' @ text_of response\<rparr>, s1)
          else
            (case json_of response of
               Inl e \<Rightarrow> (Inl e, s1)
             | Inr users \<Rightarrow>
                 (case find_user_by_username lower users uname of
                    Inl e \<Rightarrow> (Inl e, s1)
                  | Inr user \<Rightarrow>
                      if \<not> user_truthy user then
                        (Inr \<lparr>username = uname, success = False, message = ''User not found''\<rparr>, s1)
                      else if \<not> py_truthy (dict_get (the user) ''Active'' (PBool True)) then
                        (Inr \<lparr>username = uname, success = False,
                               message = ''Error: User is already inactive. Duplicate deactivation attempt.''\<rparr>, s1)
                      else deactivate_update http uname (dict_get (the user) ''Id'' PNone) s1)))"

definition deactivate_user ::
  "(string \<Rightarrow> string) \<Rightarrow> 'w http \<Rightarrow> pyval \<Rightarrow> 'w net \<Rightarrow> op_result \<times> 'w net" where
  "deactivate_user lower http uname s =
     (case deactivate_try lower http uname s of
        (Inl e, s') \<Rightarrow> (\<lparr>username = uname, success = False, message = ''Error: '' @ str_exn e\<rparr>, s')
      | (Inr result, s') \<Rightarrow> (result, s'))"

section \<open>The batch runner (\<^verbatim>\<open>process_csv\<close>, lines 74-88)\<close>

text \<open>
  The loop of lines 77-84. \<open>operation_type\<close> is the form field, \<open>None\<close> when the form has
  none. The test of the operation type stands inside the loop: it is made once per row,
  and not at all when there is no row. \<open>Inl\<close> is the error message of line 83.
\<close>

fun process_rows ::
  "(string \<Rightarrow> string) \<Rightarrow> 'w http \<Rightarrow> string option \<Rightarrow> pyval list \<Rightarrow> op_result list \<Rightarrow> 'w net \<Rightarrow>
     (string + op_result list) \<times> 'w net" where
  "process_rows lower http operation_type [] results s = (Inr results, s)"
| "process_rows lower http operation_type (uname # usernames) results s =
     (if operation_type = Some ''activation'' then
        (case activate_user lower http uname s of
           (result, s') \<Rightarrow> process_rows lower http operation_type usernames (results @ [result]) s')
      else if operation_type = Some ''deactivation'' then
        (case deactivate_user lower http uname s of
           (result, s') \<Rightarrow> process_rows lower http operation_type usernames (results @ [result]) s')
      else (Inl ''Invalid operation type'', s))"

text \<open>
  What the route answers once the usernames are read: the error with status 400, or the
  results together with the operation tag it stores in the session (line 87).
\<close>

datatype batch_response =
    BatchError int string
  | BatchSuccess "op_result list" string

definition process_csv ::
  "(string \<Rightarrow> string) \<Rightarrow> 'w http \<Rightarrow> string option \<Rightarrow> pyval list \<Rightarrow> 'w net \<Rightarrow> batch_response \<times> 'w net" where
  "process_csv lower http operation_type usernames s =
     (case process_rows lower http operation_type usernames [] s of
        (Inl err, s') \<Rightarrow> (BatchError 400 err, s')
      | (Inr results, s') \<Rightarrow>
          (BatchSuccess results
             (if operation_type = Some ''activation'' then ''Activation'' else ''Deactivation''), s'))"

section \<open>A small directory to run the program on\<close>

text \<open>
  A directory with five accounts, used to evaluate the program on concrete inputs. Its
  search returns every account (the search of the real directory is not an exact match
  either). Alice, Dave and Erin are active, Bob is inactive, Carol's record has no
  \<^verbatim>\<open>Active\<close> field. Updating Carol (id 3) fails with status 500, listing the teams of
  Dave (id 4) answers 503, listing the teams of Erin (id 5) raises a connection error,
  everybody else is in the teams 10 and 11, and a removal from team 11 answers 404. The
  world is the number of requests served.
\<close>

definition demo_users :: pyval where
  "demo_users = PList
     [PDict [(''Id'', PInt 1), (''UserName'', PStr ''Alice''), (''Active'', PBool True)],
      PDict [(''Id'', PInt 2), (''UserName'', PStr ''bob''), (''Active'', PBool False)],
      PDict [(''Id'', PInt 3), (''UserName'', PStr ''carol'')],
      PDict [(''Id'', PInt 4), (''UserName'', PStr ''dave''), (''Active'', PBool True)],
      PDict [(''Id'', PInt 5), (''UserName'', PStr ''erin''), (''Active'', PBool True)]]"

definition demo_details :: "pyval \<Rightarrow> pyval" where
  "demo_details user_id = PDict
     [(''Id'', user_id), (''FirstName'', PStr ''Pat''), (''Email'', PStr ''pat@example.org''),
      (''Region'', PStr ''EMEA''), (''ManagerId'', PInt 9)]"

definition json_response :: "pyval \<Rightarrow> response" where
  "json_response v = \<lparr>status_code = 200, text_of = ''(json)'', json_of = Inr v\<rparr>"

definition plain_response :: "int \<Rightarrow> string \<Rightarrow> response" where
  "plain_response code body =
     \<lparr>status_code = code, text_of = body, json_of = Inl (RemoteException ''Expecting value'')\<rparr>"

definition demo_http :: "nat http" where
  "demo_http rq w =
     (case rq of
        SearchUsers uname \<Rightarrow> (Inr (json_response demo_users), Suc w)
      | GetUserDetails user_id \<Rightarrow> (Inr (json_response (demo_details user_id)), Suc w)
      | PutUser user_id body \<Rightarrow>
          (if user_id = PInt 3 then (Inr (plain_response 500 ''Server Error''), Suc w)
           else (Inr (plain_response 200 []), Suc w))
      | GetUserTeams user_id \<Rightarrow>
          (if user_id = PInt 5 then (Inl (RemoteException ''Connection aborted.''), Suc w)
           else if user_id = PInt 4 then (Inr (plain_response 503 ''Service Unavailable''), Suc w)
           else (Inr (json_response (PList [PDict [(''Id'', PInt 10)], PDict [(''Id'', PInt 11)]])), Suc w))
      | DeleteTeamUser team_id user_id \<Rightarrow>
          (if team_id = PInt 11 then (Inr (plain_response 404 ''Not Found''), Suc w)
           else (Inr (plain_response 200 []), Suc w)))"

text \<open>
  A second directory, whose records carry no \<^verbatim>\<open>UserName\<close> and no \<^verbatim>\<open>Active\<close> field: the
  lookup reads the name of such a record as the empty string. Every other request is
  answered with status 200 and no JSON body.
\<close>

definition nameless_users :: pyval where
  "nameless_users = PList [PDict [(''Id'', PInt 7)]]"

definition nameless_http :: "nat http" where
  "nameless_http rq w =
     (case rq of
        SearchUsers uname \<Rightarrow> (Inr (json_response nameless_users), Suc w)
      | GetUserDetails user_id \<Rightarrow> (Inr (plain_response 200 []), Suc w)
      | PutUser user_id body \<Rightarrow> (Inr (plain_response 200 []), Suc w)
      | GetUserTeams user_id \<Rightarrow> (Inr (plain_response 200 []), Suc w)
      | DeleteTeamUser team_id user_id \<Rightarrow> (Inr (plain_response 200 []), Suc w))"

section \<open>Reading the log of exchanges\<close>

text \<open>
  The claims speak of the calls an operation issues and of how they ended. These
  predicates read that off a request or an exchange of the log.
\<close>

fun is_dict :: "pyval \<Rightarrow> bool" where
  "is_dict (PDict d) = True"
| "is_dict v = False"


fun is_team_call :: "request \<Rightarrow> bool" where
  "is_team_call (GetUserTeams u) = True"
| "is_team_call (DeleteTeamUser t u) = True"
| "is_team_call rq = False"

text \<open>The body of an update request, if the request is one.\<close>

fun put_body :: "request \<Rightarrow> dict option" where
  "put_body (PutUser i b) = Some b"
| "put_body rq = None"

text \<open>The call raised an exception instead of returning a response.\<close>

fun raised :: "exchange \<Rightarrow> bool" where
  "raised (rq, Inl e) = True"
| "raised (rq, Inr r) = False"

text \<open>An update that returned with a status outside, or inside, 200, 201 and 204.\<close>

fun put_failed :: "exchange \<Rightarrow> bool" where
  "put_failed (PutUser i b, Inr r) = (status_code r \<notin> {200, 201, 204})"
| "put_failed x = False"

fun put_succeeded :: "exchange \<Rightarrow> bool" where
  "put_succeeded (PutUser i b, Inr r) = (status_code r \<in> {200, 201, 204})"
| "put_succeeded x = False"

text \<open>
  A team listing whose answer the loop of lines 185-190 can walk: either its status is
  not 200 (the body is then not read), or its body is JSON whose iteration yields dicts
  only, as an array of team objects does. Any other exchange counts as usable.
\<close>

fun listing_usable :: "exchange \<Rightarrow> bool" where
  "listing_usable (GetUserTeams u, Inr r) =
     (if status_code r = 200 then
        (case json_of r of
           Inl e \<Rightarrow> False
         | Inr teams \<Rightarrow> (case py_iter teams of Inl e \<Rightarrow> False | Inr ts \<Rightarrow> list_all is_dict ts))
      else True)"
| "listing_usable x = True"

text \<open>The log of exchanges after a block has run.\<close>

abbreviation log_of :: "'a \<times> 'w net \<Rightarrow> exchange list" where
  "log_of r \<equiv> snd (snd r)"

text \<open>
  The outcome of a \<^verbatim>\<open>try\<close> body that yields a failed result for \<open>uname\<close>: an
  exception (which the handler turns into a failed result), or a returned failure.
\<close>

definition fails_for :: "pyval \<Rightarrow> py_exn + op_result \<Rightarrow> bool" where
  "fails_for uname res = (case res of Inl e \<Rightarrow> True | Inr r \<Rightarrow> username r = uname \<and> \<not> success r)"

section \<open>Properties of the sanitizer\<close>

text \<open>
  The keys of the comprehension's result come from the list of keys it visits and from
  the dict it started with.
\<close>

lemma comprehension_keys:
  "comprehension user_data ks clean = Inr c \<Longrightarrow> fst ` set c \<subseteq> set ks \<union> fst ` set clean"
proof (induction ks arbitrary: clean)
  case Nil
  then show ?case by simp
next
  case (Cons k ks)
  from Cons.prems obtain present where p: "py_contains user_data k = Inr present"
    by (auto split: sum.splits)
  show ?case
  proof (cases present)
    case True
    with Cons.prems p obtain v where
      v: "comprehension user_data ks (AList.update k v clean) = Inr c"
      by (auto split: sum.splits)
    from Cons.IH [OF v] show ?thesis
      by (auto simp: dom_update)
  next
    case False
    with Cons.prems p have "comprehension user_data ks clean = Inr c"
      by simp
    from Cons.IH [OF this] show ?thesis
      by auto
  qed
qed

lemma active_allowed: "''Active'' \<in> set allowed"
  by (simp add: allowed_def)

lemma sanitize_keys:
  assumes "sanitize_user_data user_data a = Inr c"
  shows "fst ` set c \<subseteq> set allowed"
proof -
  from assms obtain clean where
    clean: "comprehension user_data allowed [] = Inr clean"
    and c: "c = AList.update ''Active'' (PBool a) clean"
    by (auto simp: sanitize_user_data_def split: sum.splits)
  from comprehension_keys [OF clean] have "fst ` set clean \<subseteq> set allowed"
    by simp
  then show ?thesis
    using active_allowed by (simp add: c dom_update)
qed

lemma comprehension_dict:
  "\<exists>c. comprehension (PDict d) ks clean = Inr c \<and>
       map_of c = (\<lambda>k. if k \<in> set ks \<and> k \<in> fst ` set d then map_of d k else map_of clean k) \<and>
       (distinct (map fst clean) \<longrightarrow> distinct (map fst c))"
proof (induction ks arbitrary: clean)
  case Nil
  then show ?case by simp
next
  case (Cons k ks)
  show ?case
  proof (cases "k \<in> fst ` set d")
    case True
    then obtain v where v: "map_of d k = Some v"
      by (metis domD dom_map_of_conv_image_fst)
    from Cons [of "AList.update k v clean"] obtain c where
      c: "comprehension (PDict d) ks (AList.update k v clean) = Inr c"
         "map_of c = (\<lambda>k'. if k' \<in> set ks \<and> k' \<in> fst ` set d then map_of d k' else map_of (AList.update k v clean) k')"
         "distinct (map fst (AList.update k v clean)) \<longrightarrow> distinct (map fst c)"
      by blast
    have "comprehension (PDict d) (k # ks) clean = Inr c"
      using True v c(1) by simp
    moreover have "map_of c = (\<lambda>k'. if k' \<in> set (k # ks) \<and> k' \<in> fst ` set d then map_of d k' else map_of clean k')"
      using c(2) True v by (auto simp: update_conv' fun_eq_iff)
    moreover have "distinct (map fst clean) \<longrightarrow> distinct (map fst c)"
      using c(3) by (simp add: distinct_update)
    ultimately show ?thesis by blast
  next
    case False
    from Cons [of clean] obtain c where
      c: "comprehension (PDict d) ks clean = Inr c"
         "map_of c = (\<lambda>k'. if k' \<in> set ks \<and> k' \<in> fst ` set d then map_of d k' else map_of clean k')"
         "distinct (map fst clean) \<longrightarrow> distinct (map fst c)"
      by blast
    have "comprehension (PDict d) (k # ks) clean = Inr c"
      using False c(1) by simp
    moreover have "map_of c = (\<lambda>k'. if k' \<in> set (k # ks) \<and> k' \<in> fst ` set d then map_of d k' else map_of clean k')"
      using c(2) False by (auto simp: fun_eq_iff)
    ultimately show ?thesis using c(3) by blast
  qed
qed

lemma sanitize_active:
  "sanitize_user_data user_data a = Inr c \<Longrightarrow> map_of c ''Active'' = Some (PBool a)"
  unfolding sanitize_user_data_def
  by (auto simp: update_conv' split: sum.splits)

lemma sanitize_dict:
  "\<exists>c. sanitize_user_data (PDict d) a = Inr c \<and>
       map_of c = (\<lambda>k. if k \<in> set allowed \<and> k \<in> fst ` set d then map_of d k else None)(''Active'' \<mapsto> PBool a) \<and>
       distinct (map fst c)"
proof -
  have "\<exists>c. comprehension (PDict d) allowed [] = Inr c \<and>
       map_of c = (\<lambda>k. if k \<in> set allowed \<and> k \<in> fst ` set d then map_of d k else None) \<and>
       distinct (map fst c)"
    using comprehension_dict [of d allowed "[]"] by (simp cong: if_cong)
  then obtain c where
    c: "comprehension (PDict d) allowed [] = Inr c"
       "map_of c = (\<lambda>k. if k \<in> set allowed \<and> k \<in> fst ` set d then map_of d k else None)"
       "distinct (map fst c)"
    by blast
  show ?thesis
    using c by (simp add: sanitize_user_data_def update_conv' distinct_update)
qed

text \<open>
  Claim C10. The sanitizer is idempotent on user records: sanitizing a record \<open>r\<close> with
  flag \<open>a\<close> succeeds with a dict \<open>c\<close>, sanitizing \<open>c\<close> again with the same flag
  succeeds with a dict \<open>c'\<close>, and \<open>c'\<close> and \<open>c\<close> are the same dict in Python's sense of
  \<^verbatim>\<open>==\<close>: both have distinct keys and map every key to the same value. (The insertion
  order may differ: a record without \<^verbatim>\<open>Active\<close> gets the field last on the first pass
  and at its place in the allow-list on the second.)
\<close>

theorem sanitize_idempotent:
  "\<exists>c c'. sanitize_user_data (PDict r) a = Inr c \<and> sanitize_user_data (PDict c) a = Inr c' \<and>
     map_of c' = map_of c \<and> distinct (map fst c) \<and> distinct (map fst c')"
proof -
  from sanitize_dict [of r a] obtain c where
    c: "sanitize_user_data (PDict r) a = Inr c"
       "map_of c = (\<lambda>k. if k \<in> set allowed \<and> k \<in> fst ` set r then map_of r k else None)(''Active'' \<mapsto> PBool a)"
       "distinct (map fst c)"
    by blast
  from sanitize_dict [of c a] obtain c' where
    c': "sanitize_user_data (PDict c) a = Inr c'"
        "map_of c' = (\<lambda>k. if k \<in> set allowed \<and> k \<in> fst ` set c then map_of c k else None)(''Active'' \<mapsto> PBool a)"
        "distinct (map fst c')"
    by blast
  have keys: "fst ` set c \<subseteq> set allowed"
    by (rule sanitize_keys [OF c(1)])
  have act: "map_of c ''Active'' = Some (PBool a)"
    by (rule sanitize_active [OF c(1)])
  have "map_of c' k = map_of c k" for k
  proof (cases "k \<in> fst ` set c")
    case True
    then show ?thesis using keys act by (auto simp: c'(2))
  next
    case False
    then have "map_of c k = None"
      by (simp add: map_of_eq_None_iff)
    moreover have "k \<noteq> ''Active''"
      using False act by (metis domI dom_map_of_conv_image_fst)
    ultimately show ?thesis using False by (simp add: c'(2))
  qed
  then have "map_of c' = map_of c" by (simp add: fun_eq_iff)
  then show ?thesis using c(1) c(3) c'(1) c'(3) by blast
qed

theorem sanitize_idempotent_witness:
  "sanitize_user_data (PDict [(''UserName'', PStr ''x''), (''Manager'', PInt 9)]) True =
     Inr [(''UserName'', PStr ''x''), (''Active'', PBool True)] \<and>
   sanitize_user_data (PDict [(''UserName'', PStr ''x''), (''Active'', PBool True)]) True =
     Inr [(''Active'', PBool True), (''UserName'', PStr ''x'')] \<and>
   map_of [(''Active'', PBool True), (''UserName'', PStr ''x'')] =
     map_of [(''UserName'', PStr ''x''), (''Active'', PBool True)]"
  using sanitize_idempotent [of "[(''UserName'', PStr ''x''), (''Manager'', PInt 9)]" True]
  by (simp add: sanitize_user_data_def allowed_def)

lemma deactivation_payload_dict:
  "\<exists>c p. sanitize_user_data (PDict r) False = Inr c \<and> deactivation_payload (PDict r) = Inr p \<and>
     map_of p = (map_of c)(''Region'' \<mapsto> PStr [], ''Area'' \<mapsto> PStr [], ''Country'' \<mapsto> PStr []) \<and>
     set (map fst p) = set (map fst c) \<union> {''Region'', ''Area'', ''Country''}"
proof -
  from sanitize_dict [of r False] obtain c where c: "sanitize_user_data (PDict r) False = Inr c"
    by blast
  show ?thesis
    using c by (auto simp: deactivation_payload_def update_conv' dom_update)
qed

text \<open>
  Claim C3, as amended. For every user record \<open>r\<close> and flag \<open>a\<close>,
  \<^verbatim>\<open>sanitize_user_data\<close> succeeds, its result has no key outside the allow-list, has
  \<^verbatim>\<open>Active\<close> set to the flag, and holds none of \<^verbatim>\<open>Region\<close>, \<^verbatim>\<open>Area\<close>, \<^verbatim>\<open>Country\<close>
  (the sanitizer drops the location fields whatever the flag; it neither blanks nor
  copies them). The deactivation payload of lines 169-172 is the result for
  \<open>a = False\<close> with the three location fields added as empty strings: its keys are
  those of the sanitized record and these three, which are outside the allow-list.
\<close>

theorem sanitizer_fields:
  "(\<exists>c. sanitize_user_data (PDict r) a = Inr c \<and> set (map fst c) \<subseteq> set allowed \<and>
        map_of c ''Active'' = Some (PBool a) \<and>
        map_of c ''Region'' = None \<and> map_of c ''Area'' = None \<and> map_of c ''Country'' = None) \<and>
   (\<exists>c p. sanitize_user_data (PDict r) False = Inr c \<and> deactivation_payload (PDict r) = Inr p \<and>
        map_of p = (map_of c)(''Region'' \<mapsto> PStr [], ''Area'' \<mapsto> PStr [], ''Country'' \<mapsto> PStr []) \<and>
        set (map fst p) = set (map fst c) \<union> {''Region'', ''Area'', ''Country''})"
proof -
  from sanitize_dict [of r a] obtain c where c: "sanitize_user_data (PDict r) a = Inr c"
    by blast
  have keys: "fst ` set c \<subseteq> set allowed"
    by (rule sanitize_keys [OF c])
  have act: "map_of c ''Active'' = Some (PBool a)"
    by (rule sanitize_active [OF c])
  have none: "map_of c k = None" if "k \<notin> set allowed" for k
    using keys that by (auto simp: map_of_eq_None_iff)
  have "map_of c ''Region'' = None" "map_of c ''Area'' = None" "map_of c ''Country'' = None"
    by (rule none, simp add: allowed_def)+
  with c keys act have "\<exists>c. sanitize_user_data (PDict r) a = Inr c \<and> set (map fst c) \<subseteq> set allowed \<and>
        map_of c ''Active'' = Some (PBool a) \<and>
        map_of c ''Region'' = None \<and> map_of c ''Area'' = None \<and> map_of c ''Country'' = None"
    by auto
  then show ?thesis
    using deactivation_payload_dict [of r] by blast
qed

theorem sanitizer_fields_witness:
  "sanitize_user_data (PDict [(''Id'', PInt 1), (''Region'', PStr ''EMEA'')]) True =
     Inr [(''Id'', PInt 1), (''Active'', PBool True)] \<and>
   deactivation_payload (PDict [(''Id'', PInt 1), (''Region'', PStr ''EMEA'')]) =
     Inr [(''Id'', PInt 1), (''Active'', PBool False), (''Region'', PStr []), (''Area'', PStr []), (''Country'', PStr [])]"
  using sanitizer_fields [of "[(''Id'', PInt 1), (''Region'', PStr ''EMEA'')]" True]
  by (simp add: sanitize_user_data_def deactivation_payload_def allowed_def)

text \<open>
  The claim as the specification states it fails on the record
  \<^verbatim>\<open>{"Id": 1, "Region": "EMEA"}\<close>, whichever function is read as the sanitizer: the
  result of \<^verbatim>\<open>sanitize_user_data\<close> with flag false has no \<^verbatim>\<open>Region\<close> field at all,
  and the payload that has the blank \<^verbatim>\<open>Region\<close> has a key outside the allow-list.
\<close>

theorem sanitizer_claim_counterexample:
  "sanitize_user_data (PDict [(''Id'', PInt 1), (''Region'', PStr ''EMEA'')]) False =
     Inr [(''Id'', PInt 1), (''Active'', PBool False)] \<and>
   \<not> (map_of [(''Id'', PInt 1), (''Active'', PBool False)] ''Region'' = Some (PStr [])) \<and>
   deactivation_payload (PDict [(''Id'', PInt 1), (''Region'', PStr ''EMEA'')]) =
     Inr [(''Id'', PInt 1), (''Active'', PBool False), (''Region'', PStr []), (''Area'', PStr []), (''Country'', PStr [])] \<and>
   \<not> (set (map fst [(''Id'', PInt 1), (''Active'', PBool False), (''Region'', PStr []), (''Area'', PStr []), (''Country'', PStr [])])
        \<subseteq> set allowed)"
  by (simp add: sanitize_user_data_def deactivation_payload_def allowed_def)

section \<open>The team cleanup\<close>

text \<open>
  The removal loop adds only DELETE exchanges to the log, and it runs to its end when
  every team is a dict and no DELETE raises.
\<close>

lemma remove_from_teams_filter:
  assumes "\<And>t u out. \<not> P (DeleteTeamUser t u, out)"
  shows "filter P (log_of (remove_from_teams http uid ts s)) = filter P (snd s)"
proof (induction ts arbitrary: s)
  case Nil
  show ?case by simp
next
  case (Cons team teams)
  show ?case
  proof (cases team)
    case (PDict d)
    obtain out w' where h: "http (DeleteTeamUser (dict_get d ''Id'' PNone) uid) (fst s) = (out, w')"
      by (cases "http (DeleteTeamUser (dict_get d ''Id'' PNone) uid) (fst s)")
    show ?thesis
    proof (cases out)
      case (Inl e)
      have "remove_from_teams http uid (team # teams) s =
              (Some e, (w', snd s @ [(DeleteTeamUser (dict_get d ''Id'' PNone) uid, out)]))"
        by (simp add: PDict send_def h Inl)
      then show ?thesis by (simp add: assms)
    next
      case (Inr r)
      have "remove_from_teams http uid (team # teams) s =
              remove_from_teams http uid teams (w', snd s @ [(DeleteTeamUser (dict_get d ''Id'' PNone) uid, out)])"
        by (simp add: PDict send_def h Inr)
      then show ?thesis by (simp add: Cons assms)
    qed
  qed simp_all
qed

lemma remove_from_teams_none:
  "list_all is_dict ts \<Longrightarrow> \<not> list_ex raised (log_of (remove_from_teams http uid ts s)) \<Longrightarrow>
   fst (remove_from_teams http uid ts s) = None"
proof (induction ts arbitrary: s)
  case Nil
  show ?case by simp
next
  case (Cons team teams)
  from Cons.prems(1) obtain d where PDict: "team = PDict d" and rest: "list_all is_dict teams"
    by (cases team) simp_all
  obtain out w' where h: "http (DeleteTeamUser (dict_get d ''Id'' PNone) uid) (fst s) = (out, w')"
    by (cases "http (DeleteTeamUser (dict_get d ''Id'' PNone) uid) (fst s)")
  show ?case
  proof (cases out)
    case (Inl e)
    have "remove_from_teams http uid (team # teams) s =
            (Some e, (w', snd s @ [(DeleteTeamUser (dict_get d ''Id'' PNone) uid, out)]))"
      by (simp add: PDict send_def h Inl)
    with Cons.prems(2) show ?thesis by (simp add: Inl)
  next
    case (Inr r)
    have eq: "remove_from_teams http uid (team # teams) s =
            remove_from_teams http uid teams (w', snd s @ [(DeleteTeamUser (dict_get d ''Id'' PNone) uid, out)])"
      by (simp add: PDict send_def h Inr)
    show ?thesis
      using Cons.IH [OF rest] Cons.prems(2) unfolding eq by blast
  qed
qed

lemma team_cleanup_filter:
  assumes "\<And>rq out. is_team_call rq \<Longrightarrow> \<not> P (rq, out)"
  shows "filter P (log_of (team_cleanup http uname uid s)) = filter P (snd s)"
proof -
  obtain out w' where h: "http (GetUserTeams uid) (fst s) = (out, w')"
    by (cases "http (GetUserTeams uid) (fst s)")
  let ?s4 = "(w', snd s @ [(GetUserTeams uid, out)])"
  have s4: "send http (GetUserTeams uid) s = (out, ?s4)"
    by (simp add: send_def h)
  have l: "filter P (log_of (remove_from_teams http uid ts ?s4)) = filter P (snd s)" for ts
    by (simp add: remove_from_teams_filter [of P] assms)
  show ?thesis
  proof (cases out)
    case (Inl e)
    then show ?thesis by (simp add: team_cleanup_def s4 assms)
  next
    case (Inr r)
    then show ?thesis
      using l by (simp add: team_cleanup_def s4 assms case_prod_beta split: sum.splits option.splits)
  qed
qed


lemma team_cleanup_completes:
  assumes "\<not> list_ex raised (log_of (team_cleanup http uname uid s))"
    and "list_all listing_usable (log_of (team_cleanup http uname uid s))"
  shows "fst (team_cleanup http uname uid s) =
     Inr \<lparr>username = uname, success = True,
           message = ''User deactivated, removed from all teams, and profile data cleared''\<rparr>"
proof -
  obtain out w' where h: "http (GetUserTeams uid) (fst s) = (out, w')"
    by (cases "http (GetUserTeams uid) (fst s)")
  let ?s4 = "(w', snd s @ [(GetUserTeams uid, out)])"
  have s4: "send http (GetUserTeams uid) s = (out, ?s4)"
    by (simp add: send_def h)
  show ?thesis
  proof (cases out)
    case (Inl e)
    with assms(1) s4 show ?thesis
      by (simp add: team_cleanup_def)
  next
    case (Inr r)
    show ?thesis
    proof (cases "status_code r = 200")
      case False
      with s4 Inr show ?thesis by (simp add: team_cleanup_def)
    next
      case True
      have keep: "filter (\<lambda>x. \<not> listing_usable x) (log_of (remove_from_teams http uid ts ?s4)) =
                  filter (\<lambda>x. \<not> listing_usable x) (snd ?s4)" for ts
        by (rule remove_from_teams_filter) simp
      show ?thesis
      proof (cases "json_of r")
        case (Inl e)
        with assms(2) s4 Inr True show ?thesis
          by (simp add: team_cleanup_def)
      next
        case json: (Inr teams)
        show ?thesis
        proof (cases "py_iter teams")
          case (Inl e)
          with assms(2) s4 Inr True json show ?thesis
            by (simp add: team_cleanup_def)
        next
          case iter: (Inr ts)
          have tc: "team_cleanup http uname uid s =
             (case remove_from_teams http uid ts ?s4 of
                (Some e, s5) \<Rightarrow> (Inl e, s5)
              | (None, s5) \<Rightarrow>
                  (Inr \<lparr>username = uname, success = True,
                         message = ''User deactivated, removed from all teams, and profile data cleared''\<rparr>, s5))"
            using s4 Inr True json iter by (simp add: team_cleanup_def)
          have lg: "log_of (team_cleanup http uname uid s) = log_of (remove_from_teams http uid ts ?s4)"
            by (simp add: tc case_prod_beta split: option.splits)
          from assms(2) have "filter (\<lambda>x. \<not> listing_usable x) (log_of (remove_from_teams http uid ts ?s4)) = []"
            unfolding lg by (simp add: list_all_iff filter_empty_conv)
          then have "listing_usable (GetUserTeams uid, out)"
            unfolding keep by (auto simp: filter_empty_conv split: if_splits)
          then have dicts: "list_all is_dict ts"
            using Inr True json iter by simp
          from assms(1) have "\<not> list_ex raised (log_of (remove_from_teams http uid ts ?s4))"
            unfolding lg .
          from remove_from_teams_none [OF dicts this] show ?thesis
            by (simp add: tc case_prod_beta)
        qed
      qed
    qed
  qed
qed

section \<open>The paths through the operations\<close>

text \<open>
  Each block either stops before its update request, or reaches it. The rules below
  name the paths, with the log each one leaves and the outcome it has; the properties
  of the operations are proved path by path.
\<close>

lemma deactivate_update_cases:
  obtains (no_put) out where
      "log_of (deactivate_update http uname uid s) = snd s @ [(GetUserDetails uid, out)]"
      "fails_for uname (fst (deactivate_update http uname uid s))"
  | (put_raised) r ud p e where
      "log_of (deactivate_update http uname uid s) =
         snd s @ [(GetUserDetails uid, Inr r), (PutUser uid p, Inl e)]"
      "deactivation_payload ud = Inr p"
      "fst (deactivate_update http uname uid s) = Inl e"
  | (put_failed) r ud p u where
      "log_of (deactivate_update http uname uid s) =
         snd s @ [(GetUserDetails uid, Inr r), (PutUser uid p, Inr u)]"
      "deactivation_payload ud = Inr p"
      "status_code u \<notin> {200, 201, 204}"
      "fst (deactivate_update http uname uid s) =
         Inr \<lparr>username = uname, success = False,
               message = ''Failed to deactivate user: '' @ text_of u\<rparr>"
  | (put_succeeded) r ud p u w3 where
      "deactivation_payload ud = Inr p"
      "status_code u \<in> {200, 201, 204}"
      "deactivate_update http uname uid s =
         team_cleanup http uname uid (w3, snd s @ [(GetUserDetails uid, Inr r), (PutUser uid p, Inr u)])"
proof -
  obtain out1 w1 where h1: "http (GetUserDetails uid) (fst s) = (out1, w1)"
    by (cases "http (GetUserDetails uid) (fst s)")
  have s2: "send http (GetUserDetails uid) s = (out1, (w1, snd s @ [(GetUserDetails uid, out1)]))"
    by (simp add: send_def h1)
  show thesis
  proof (cases out1)
    case (Inl e)
    show thesis
      by (rule no_put [of out1]) (simp_all add: deactivate_update_def s2 Inl fails_for_def)
  next
    case get: (Inr r)
    show thesis
    proof (cases "status_code r = 200 \<and> (\<exists>ud p. json_of r = Inr ud \<and> deactivation_payload ud = Inr p)")
      case False
      show thesis
        by (rule no_put [of out1])
           (use False in \<open>auto simp: deactivate_update_def s2 get fails_for_def split: sum.splits\<close>)
    next
      case True
      then obtain ud p where ok: "status_code r = 200" "json_of r = Inr ud" "deactivation_payload ud = Inr p"
        by blast
      obtain out2 w2 where h2: "http (PutUser uid p) w1 = (out2, w2)"
        by (cases "http (PutUser uid p) w1")
      let ?s3 = "(w2, snd s @ [(GetUserDetails uid, Inr r), (PutUser uid p, out2)])"
      have s3: "send http (PutUser uid p) (w1, snd s @ [(GetUserDetails uid, Inr r)]) = (out2, ?s3)"
        by (simp add: send_def h2)
      show thesis
      proof (cases out2)
        case (Inl e)
        show thesis
          by (rule put_raised [of r p e ud])
             (simp_all add: deactivate_update_def s2 get ok s3 Inl)
      next
        case put: (Inr u)
        show thesis
        proof (cases "status_code u \<in> {200, 201, 204}")
          case False
          show thesis
            by (rule put_failed [of r p u ud])
               (use False in \<open>simp_all add: deactivate_update_def s2 get ok s3 put\<close>)
        next
          case True
          show thesis
            by (rule put_succeeded [of ud p u w2 r])
               (use True in \<open>simp_all add: deactivate_update_def s2 get ok s3 put\<close>)
        qed
      qed
    qed
  qed
qed

lemma activate_update_cases:
  obtains (no_put) out where
      "log_of (activate_update http uname uid s) = snd s @ [(GetUserDetails uid, out)]"
      "fails_for uname (fst (activate_update http uname uid s))"
  | (put) r ud p out where
      "log_of (activate_update http uname uid s) =
         snd s @ [(GetUserDetails uid, Inr r), (PutUser uid p, out)]"
      "sanitize_user_data ud True = Inr p"
      "fst (activate_update http uname uid s) =
         (case out of
            Inl e \<Rightarrow> Inl e
          | Inr u \<Rightarrow>
              if status_code u \<in> {200, 201, 204} then
                Inr \<lparr>username = uname, success = True, message = ''User activated successfully''\<rparr>
              else
                Inr \<lparr>username = uname, success = False,
                      message = ''Failed to activate user: '' @ text_of u\<rparr>)"
proof -
  obtain out1 w1 where h1: "http (GetUserDetails uid) (fst s) = (out1, w1)"
    by (cases "http (GetUserDetails uid) (fst s)")
  have s2: "send http (GetUserDetails uid) s = (out1, (w1, snd s @ [(GetUserDetails uid, out1)]))"
    by (simp add: send_def h1)
  show thesis
  proof (cases out1)
    case (Inl e)
    show thesis
      by (rule no_put [of out1]) (simp_all add: activate_update_def s2 Inl fails_for_def)
  next
    case get: (Inr r)
    show thesis
    proof (cases "status_code r = 200 \<and> (\<exists>ud p. json_of r = Inr ud \<and> sanitize_user_data ud True = Inr p)")
      case False
      show thesis
        by (rule no_put [of out1])
           (use False in \<open>auto simp: activate_update_def s2 get fails_for_def split: sum.splits\<close>)
    next
      case True
      then obtain ud p where ok: "status_code r = 200" "json_of r = Inr ud" "sanitize_user_data ud True = Inr p"
        by blast
      obtain out2 w2 where h2: "http (PutUser uid p) w1 = (out2, w2)"
        by (cases "http (PutUser uid p) w1")
      have s3: "send http (PutUser uid p) (w1, snd s @ [(GetUserDetails uid, Inr r)]) =
                  (out2, (w2, snd s @ [(GetUserDetails uid, Inr r), (PutUser uid p, out2)]))"
        by (simp add: send_def h2)
      show thesis
        by (rule put [of r p out2 ud])
           (simp_all add: activate_update_def s2 get ok s3 split: sum.splits)
    qed
  qed
qed

lemma deactivate_try_cases:
  obtains (early) out where
      "log_of (deactivate_try lower http uname s) = snd s @ [(SearchUsers uname, out)]"
      "fails_for uname (fst (deactivate_try lower http uname s))"
  | (update) r w1 users user where
      "http (SearchUsers uname) (fst s) = (Inr r, w1)"
      "status_code r = 200" "json_of r = Inr users"
      "find_user_by_username lower users uname = Inr (Some user)" "user \<noteq> []"
      "py_truthy (dict_get user ''Active'' (PBool True))"
      "deactivate_try lower http uname s =
         deactivate_update http uname (dict_get user ''Id'' PNone) (w1, snd s @ [(SearchUsers uname, Inr r)])"
proof -
  obtain out w1 where h: "http (SearchUsers uname) (fst s) = (out, w1)"
    by (cases "http (SearchUsers uname) (fst s)")
  have s1: "send http (SearchUsers uname) s = (out, (w1, snd s @ [(SearchUsers uname, out)]))"
    by (simp add: send_def h)
  show thesis
  proof (cases "\<exists>r users user. out = Inr r \<and> status_code r = 200 \<and> json_of r = Inr users \<and>
                  find_user_by_username lower users uname = Inr (Some user) \<and> user \<noteq> [] \<and>
                  py_truthy (dict_get user ''Active'' (PBool True))")
    case True
    then obtain r users user where ok: "out = Inr r" "status_code r = 200" "json_of r = Inr users"
        "find_user_by_username lower users uname = Inr (Some user)" "user \<noteq> []"
        "py_truthy (dict_get user ''Active'' (PBool True))"
      by blast
    show thesis
      by (rule update [of r w1 users user])
         (use h ok in \<open>simp_all add: deactivate_try_def s1 user_truthy_def\<close>)
  next
    case False
    show thesis
      by (rule early [of out])
         (use False in \<open>auto simp: deactivate_try_def s1 user_truthy_def fails_for_def
                          split: sum.splits option.splits\<close>)
  qed
qed

lemma activate_try_cases:
  obtains (early) out where
      "log_of (activate_try lower http uname s) = snd s @ [(SearchUsers uname, out)]"
      "fails_for uname (fst (activate_try lower http uname s))"
  | (update) r w1 users user where
      "http (SearchUsers uname) (fst s) = (Inr r, w1)"
      "status_code r = 200" "json_of r = Inr users"
      "find_user_by_username lower users uname = Inr (Some user)" "user \<noteq> []"
      "\<not> py_truthy (dict_get user ''Active'' (PBool False))"
      "activate_try lower http uname s =
         activate_update http uname (dict_get user ''Id'' PNone) (w1, snd s @ [(SearchUsers uname, Inr r)])"
proof -
  obtain out w1 where h: "http (SearchUsers uname) (fst s) = (out, w1)"
    by (cases "http (SearchUsers uname) (fst s)")
  have s1: "send http (SearchUsers uname) s = (out, (w1, snd s @ [(SearchUsers uname, out)]))"
    by (simp add: send_def h)
  show thesis
  proof (cases "\<exists>r users user. out = Inr r \<and> status_code r = 200 \<and> json_of r = Inr users \<and>
                  find_user_by_username lower users uname = Inr (Some user) \<and> user \<noteq> [] \<and>
                  \<not> py_truthy (dict_get user ''Active'' (PBool False))")
    case True
    then obtain r users user where ok: "out = Inr r" "status_code r = 200" "json_of r = Inr users"
        "find_user_by_username lower users uname = Inr (Some user)" "user \<noteq> []"
        "\<not> py_truthy (dict_get user ''Active'' (PBool False))"
      by blast
    show thesis
      by (rule update [of r w1 users user])
         (use h ok in \<open>simp_all add: activate_try_def s1 user_truthy_def\<close>)
  next
    case False
    show thesis
      by (rule early [of out])
         (use False in \<open>auto simp: activate_try_def s1 user_truthy_def fails_for_def
                          split: sum.splits option.splits\<close>)
  qed
qed

section \<open>Properties of the operations\<close>

text \<open>Facts to evaluate the operations on the small directory.\<close>

lemmas run_defs =
  activate_user_def activate_try_def activate_update_def
  deactivate_user_def deactivate_try_def deactivate_update_def team_cleanup_def
  send_def find_user_by_username_def user_truthy_def dict_get_def ascii_lower_def lower_char_def
  deactivation_payload_def sanitize_user_data_def allowed_def

lemmas demo_defs =
  demo_http_def demo_users_def demo_details_def json_response_def plain_response_def

lemma list_ex_filter: "list_ex P xs \<longleftrightarrow> filter P xs \<noteq> []"
  by (simp add: list_ex_iff filter_empty_conv)

lemma team_cleanup_ex:
  assumes "\<And>rq out. is_team_call rq \<Longrightarrow> \<not> P (rq, out)"
  shows "list_ex P (log_of (team_cleanup http uname uid s)) = list_ex P (snd s)"
  by (simp add: list_ex_filter team_cleanup_filter [of P, OF assms])

lemma put_failed_not_team: "is_team_call rq \<Longrightarrow> \<not> put_failed (rq, out)"
  by (cases rq) simp_all

lemma deactivate_user_log:
  "log_of (deactivate_user lower http uname s) = log_of (deactivate_try lower http uname s)"
  by (simp add: deactivate_user_def case_prod_beta split: sum.splits)

lemma deactivate_user_result:
  "fst (deactivate_user lower http uname s) =
     (case fst (deactivate_try lower http uname s) of
        Inl e \<Rightarrow> \<lparr>username = uname, success = False, message = ''Error: '' @ str_exn e\<rparr>
      | Inr r \<Rightarrow> r)"
  by (simp add: deactivate_user_def case_prod_beta split: sum.splits)

text \<open>
  Claim C6. For every deactivation (any directory, any username) in which the update
  request returned a response whose status is outside 200, 201 and 204, the result has
  \<open>success = False\<close> and the log holds no team listing and no team removal.
\<close>

theorem update_failure_skips_cleanup:
  assumes "list_ex put_failed (log_of (deactivate_user lower http uname (w, [])))"
  shows "\<not> success (fst (deactivate_user lower http uname (w, []))) \<and>
         \<not> list_ex (\<lambda>x. is_team_call (fst x)) (log_of (deactivate_user lower http uname (w, [])))"
proof (cases rule: deactivate_try_cases [of lower http uname "(w, [])"])
  case (early out)
  with assms show ?thesis
    by (simp add: deactivate_user_log)
next
  case (update r w1 users user)
  let ?s1 = "(w1, [(SearchUsers uname, Inr r)])"
  let ?uid = "dict_get user ''Id'' PNone"
  have body: "deactivate_try lower http uname (w, []) = deactivate_update http uname ?uid ?s1"
    using update(7) by simp
  show ?thesis
  proof (cases rule: deactivate_update_cases [of http uname ?uid ?s1])
    case (no_put out)
    with assms show ?thesis
      by (simp add: deactivate_user_log body)
  next
    case (put_raised r' ud p e)
    with assms show ?thesis
      by (simp add: deactivate_user_log body)
  next
    case (put_failed r' ud p u)
    then show ?thesis
      by (simp add: deactivate_user_log deactivate_user_result body)
  next
    case (put_succeeded r' ud p u w3)
    have "\<not> list_ex put_failed (log_of (deactivate_update http uname ?uid ?s1))"
      unfolding put_succeeded(3)
      using put_succeeded(2) by (simp add: team_cleanup_ex [of put_failed, OF put_failed_not_team])
    with assms show ?thesis
      by (simp add: deactivate_user_log body)
  qed
qed

theorem update_failure_skips_cleanup_witness:
  "list_ex put_failed (log_of (deactivate_user ascii_lower demo_http (PStr ''carol'') (0, []))) \<and>
   \<not> success (fst (deactivate_user ascii_lower demo_http (PStr ''carol'') (0, []))) \<and>
   \<not> list_ex (\<lambda>x. is_team_call (fst x)) (log_of (deactivate_user ascii_lower demo_http (PStr ''carol'') (0, []))) \<and>
   map fst (log_of (deactivate_user ascii_lower demo_http (PStr ''carol'') (0, []))) =
     [SearchUsers (PStr ''carol''), GetUserDetails (PInt 3),
      PutUser (PInt 3) [(''Id'', PInt 3), (''FirstName'', PStr ''Pat''), (''Email'', PStr ''pat@example.org''),
                        (''Active'', PBool False), (''Region'', PStr []), (''Area'', PStr []), (''Country'', PStr [])]]"
proof -
  have h: "list_ex put_failed (log_of (deactivate_user ascii_lower demo_http (PStr ''carol'') (0, [])))"
    by (simp add: run_defs demo_defs)
  have l: "map fst (log_of (deactivate_user ascii_lower demo_http (PStr ''carol'') (0, []))) =
     [SearchUsers (PStr ''carol''), GetUserDetails (PInt 3),
      PutUser (PInt 3) [(''Id'', PInt 3), (''FirstName'', PStr ''Pat''), (''Email'', PStr ''pat@example.org''),
                        (''Active'', PBool False), (''Region'', PStr []), (''Area'', PStr []), (''Country'', PStr [])]]"
    by (simp add: run_defs demo_defs)
  show ?thesis
    using update_failure_skips_cleanup [OF h] h l by simp
qed

text \<open>
  Claim C7, as amended. For every deactivation in which the update request returned
  a status in 200, 201, 204, in which no call raised an exception, and in which the team
  listing is usable (its status is not 200, or its body is JSON whose iteration yields
  objects only), the result is the success result with the full message. The statuses of
  the team listing and of the removals do not matter: a listing that answers 503 and a
  removal that answers 404 are absorbed.
\<close>

theorem update_success_absorbs_soft_failures:
  assumes "list_ex put_succeeded (log_of (deactivate_user lower http uname (w, [])))"
    and "\<not> list_ex raised (log_of (deactivate_user lower http uname (w, [])))"
    and "list_all listing_usable (log_of (deactivate_user lower http uname (w, [])))"
  shows "fst (deactivate_user lower http uname (w, [])) =
     \<lparr>username = uname, success = True,
       message = ''User deactivated, removed from all teams, and profile data cleared''\<rparr>"
proof (cases rule: deactivate_try_cases [of lower http uname "(w, [])"])
  case (early out)
  with assms(1) show ?thesis
    by (simp add: deactivate_user_log)
next
  case (update r w1 users user)
  let ?s1 = "(w1, [(SearchUsers uname, Inr r)])"
  let ?uid = "dict_get user ''Id'' PNone"
  have body: "deactivate_try lower http uname (w, []) = deactivate_update http uname ?uid ?s1"
    using update(7) by simp
  show ?thesis
  proof (cases rule: deactivate_update_cases [of http uname ?uid ?s1])
    case (no_put out)
    with assms(1) show ?thesis
      by (simp add: deactivate_user_log body)
  next
    case (put_raised r' ud p e)
    with assms(1) show ?thesis
      by (simp add: deactivate_user_log body)
  next
    case (put_failed r' ud p u)
    with assms(1) show ?thesis
      by (simp add: deactivate_user_log body)
  next
    case (put_succeeded r' ud p u w3)
    let ?s3 = "(w3, [(SearchUsers uname, Inr r), (GetUserDetails ?uid, Inr r'), (PutUser ?uid p, Inr u)])"
    have eq: "deactivate_try lower http uname (w, []) = team_cleanup http uname ?uid ?s3"
      using put_succeeded(3) by (simp add: body)
    have "fst (team_cleanup http uname ?uid ?s3) =
      Inr \<lparr>username = uname, success = True,
           message = ''User deactivated, removed from all teams, and profile data cleared''\<rparr>"
      using assms(2,3) by (intro team_cleanup_completes) (simp_all add: deactivate_user_log eq)
    then show ?thesis
      by (simp add: deactivate_user_result eq)
  qed
qed

theorem update_success_absorbs_soft_failures_witness:
  "fst (deactivate_user ascii_lower demo_http (PStr ''alice'') (0, [])) =
     \<lparr>username = PStr ''alice'', success = True,
       message = ''User deactivated, removed from all teams, and profile data cleared''\<rparr> \<and>
   (DeleteTeamUser (PInt 11) (PInt 1), Inr (plain_response 404 ''Not Found''))
     \<in> set (log_of (deactivate_user ascii_lower demo_http (PStr ''alice'') (0, []))) \<and>
   fst (deactivate_user ascii_lower demo_http (PStr ''dave'') (0, [])) =
     \<lparr>username = PStr ''dave'', success = True,
       message = ''User deactivated, removed from all teams, and profile data cleared''\<rparr> \<and>
   (GetUserTeams (PInt 4), Inr (plain_response 503 ''Service Unavailable''))
     \<in> set (log_of (deactivate_user ascii_lower demo_http (PStr ''dave'') (0, [])))"
proof -
  have a1: "list_ex put_succeeded (log_of (deactivate_user ascii_lower demo_http (PStr ''alice'') (0, [])))"
    and a2: "\<not> list_ex raised (log_of (deactivate_user ascii_lower demo_http (PStr ''alice'') (0, [])))"
    and a3: "list_all listing_usable (log_of (deactivate_user ascii_lower demo_http (PStr ''alice'') (0, [])))"
    and a4: "(DeleteTeamUser (PInt 11) (PInt 1), Inr (plain_response 404 ''Not Found''))
              \<in> set (log_of (deactivate_user ascii_lower demo_http (PStr ''alice'') (0, [])))"
    by code_simp+
  have d1: "list_ex put_succeeded (log_of (deactivate_user ascii_lower demo_http (PStr ''dave'') (0, [])))"
    and d2: "\<not> list_ex raised (log_of (deactivate_user ascii_lower demo_http (PStr ''dave'') (0, [])))"
    and d3: "list_all listing_usable (log_of (deactivate_user ascii_lower demo_http (PStr ''dave'') (0, [])))"
    and d4: "(GetUserTeams (PInt 4), Inr (plain_response 503 ''Service Unavailable''))
              \<in> set (log_of (deactivate_user ascii_lower demo_http (PStr ''dave'') (0, [])))"
    by (simp_all add: run_defs demo_defs)
  show ?thesis
    using update_success_absorbs_soft_failures [OF a1 a2 a3]
      update_success_absorbs_soft_failures [OF d1 d2 d3] a4 d4
    by simp
qed

text \<open>
  The claim as the specification states it fails when a call of the cleanup raises: for
  Erin the update succeeds, the team listing raises a connection error, the handler of
  line 200 catches it, and the result is a failure.
\<close>

theorem update_success_counterexample:
  "list_ex put_succeeded (log_of (deactivate_user ascii_lower demo_http (PStr ''erin'') (0, []))) \<and>
   fst (deactivate_user ascii_lower demo_http (PStr ''erin'') (0, [])) =
     \<lparr>username = PStr ''erin'', success = False, message = ''Error: Connection aborted.''\<rparr>"
  by (simp add: run_defs demo_defs)

lemma deactivation_payload_fields:
  assumes "deactivation_payload ud = Inr p"
  shows "set (map fst p) \<subseteq> set allowed \<union> {''Region'', ''Area'', ''Country''}"
    and "map_of p ''Active'' = Some (PBool False)"
    and "map_of p ''Region'' = Some (PStr [])"
    and "map_of p ''Area'' = Some (PStr [])"
    and "map_of p ''Country'' = Some (PStr [])"
proof -
  from assms obtain c where c: "sanitize_user_data ud False = Inr c"
    and p: "p = AList.update ''Country'' (PStr []) (AList.update ''Area'' (PStr []) (AList.update ''Region'' (PStr []) c))"
    by (auto simp: deactivation_payload_def split: sum.splits)
  from sanitize_keys [OF c] show "set (map fst p) \<subseteq> set allowed \<union> {''Region'', ''Area'', ''Country''}"
    by (auto simp: p dom_update)
  from sanitize_active [OF c] show "map_of p ''Active'' = Some (PBool False)"
    by (simp add: p update_conv')
  show "map_of p ''Region'' = Some (PStr [])" "map_of p ''Area'' = Some (PStr [])"
    "map_of p ''Country'' = Some (PStr [])"
    by (simp_all add: p update_conv')
qed

lemma team_cleanup_members:
  assumes "x \<in> set (log_of (team_cleanup http uname uid s))"
  shows "x \<in> set (snd s) \<or> put_body (fst x) = None"
proof (cases "is_team_call (fst x)")
  case True
  then show ?thesis by (cases "fst x") simp_all
next
  case False
  have "filter (\<lambda>x. \<not> is_team_call (fst x)) (log_of (team_cleanup http uname uid s)) =
        filter (\<lambda>x. \<not> is_team_call (fst x)) (snd s)"
    by (rule team_cleanup_filter) simp
  then have "set (filter (\<lambda>x. \<not> is_team_call (fst x)) (log_of (team_cleanup http uname uid s))) =
        set (filter (\<lambda>x. \<not> is_team_call (fst x)) (snd s))"
    by simp
  with assms False show ?thesis by auto
qed

lemma activate_user_log:
  "log_of (activate_user lower http uname s) = log_of (activate_try lower http uname s)"
  by (simp add: activate_user_def case_prod_beta split: sum.splits)


lemma activate_bodies:
  assumes "x \<in> set (log_of (activate_user lower http uname (w, [])))" and "put_body (fst x) = Some b"
  shows "set (map fst b) \<subseteq> set allowed \<and> map_of b ''Active'' = Some (PBool True)"
proof (cases rule: activate_try_cases [of lower http uname "(w, [])"])
  case (early out)
  with assms show ?thesis
    by (auto simp: activate_user_log)
next
  case (update r w1 users user)
  let ?s1 = "(w1, [(SearchUsers uname, Inr r)])"
  let ?uid = "dict_get user ''Id'' PNone"
  have body: "activate_try lower http uname (w, []) = activate_update http uname ?uid ?s1"
    using update(7) by simp
  show ?thesis
  proof (cases rule: activate_update_cases [of http uname ?uid ?s1])
    case (no_put out)
    with assms show ?thesis
      by (auto simp: activate_user_log body)
  next
    case (put r' ud p out)
    from assms put(1) have "b = p"
      by (auto simp: activate_user_log body)
    with sanitize_keys [OF put(2)] sanitize_active [OF put(2)] show ?thesis
      by simp
  qed
qed

lemma deactivate_bodies:
  assumes "x \<in> set (log_of (deactivate_user lower http uname (w, [])))" and "put_body (fst x) = Some b"
  shows "\<exists>ud. deactivation_payload ud = Inr b"
proof (cases rule: deactivate_try_cases [of lower http uname "(w, [])"])
  case (early out)
  with assms show ?thesis
    by (auto simp: deactivate_user_log)
next
  case (update r w1 users user)
  let ?s1 = "(w1, [(SearchUsers uname, Inr r)])"
  let ?uid = "dict_get user ''Id'' PNone"
  have body: "deactivate_try lower http uname (w, []) = deactivate_update http uname ?uid ?s1"
    using update(7) by simp
  show ?thesis
  proof (cases rule: deactivate_update_cases [of http uname ?uid ?s1])
    case (no_put out)
    with assms show ?thesis
      by (auto simp: deactivate_user_log body)
  next
    case (put_raised r' ud p e)
    from assms put_raised(1) have "b = p"
      by (auto simp: deactivate_user_log body)
    with put_raised(2) show ?thesis by blast
  next
    case (put_failed r' ud p u)
    from assms put_failed(1) have "b = p"
      by (auto simp: deactivate_user_log body)
    with put_failed(2) show ?thesis by blast
  next
    case (put_succeeded r' ud p u w3)
    let ?s3 = "(w3, [(SearchUsers uname, Inr r), (GetUserDetails ?uid, Inr r'), (PutUser ?uid p, Inr u)])"
    have "x \<in> set (log_of (team_cleanup http uname ?uid ?s3))"
      using assms(1) put_succeeded(3) by (simp add: deactivate_user_log body)
    from team_cleanup_members [OF this] assms(2) have "b = p"
      by auto
    with put_succeeded(1) show ?thesis by blast
  qed
qed

text \<open>
  Claim C4, as amended. In every activation, the body of every update request has no
  field outside the allow-list and has \<^verbatim>\<open>Active\<close> true. In every deactivation, the body
  of every update request has no field outside the allow-list and the three location
  fields \<^verbatim>\<open>Region\<close>, \<^verbatim>\<open>Area\<close>, \<^verbatim>\<open>Country\<close>; it has \<^verbatim>\<open>Active\<close> false and the three
  location fields set to the empty string.
\<close>

theorem update_bodies:
  "(\<forall>x \<in> set (log_of (activate_user lower http uname (w, []))). \<forall>b. put_body (fst x) = Some b \<longrightarrow>
      set (map fst b) \<subseteq> set allowed \<and> map_of b ''Active'' = Some (PBool True)) \<and>
   (\<forall>x \<in> set (log_of (deactivate_user lower http uname (w, []))). \<forall>b. put_body (fst x) = Some b \<longrightarrow>
      set (map fst b) \<subseteq> set allowed \<union> {''Region'', ''Area'', ''Country''} \<and>
      map_of b ''Active'' = Some (PBool False) \<and>
      map_of b ''Region'' = Some (PStr []) \<and> map_of b ''Area'' = Some (PStr []) \<and>
      map_of b ''Country'' = Some (PStr []))"
proof (intro conjI ballI allI impI)
  fix x b
  assume mem: "x \<in> set (log_of (deactivate_user lower http uname (w, [])))"
    and put: "put_body (fst x) = Some b"
  from deactivate_bodies [OF mem put] obtain ud where ud: "deactivation_payload ud = Inr b" ..
  from deactivation_payload_fields [OF ud]
  show "set (map fst b) \<subseteq> set allowed \<union> {''Region'', ''Area'', ''Country''}"
    "map_of b ''Active'' = Some (PBool False)"
    "map_of b ''Region'' = Some (PStr [])" "map_of b ''Area'' = Some (PStr [])"
    "map_of b ''Country'' = Some (PStr [])"
    by simp_all
qed (rule activate_bodies [THEN conjunct1] activate_bodies [THEN conjunct2], assumption+)+

theorem update_bodies_witness:
  "(PutUser (PInt 2) [(''Id'', PInt 2), (''FirstName'', PStr ''Pat''), (''Email'', PStr ''pat@example.org''), (''Active'', PBool True)], Inr (plain_response 200 []))
     \<in> set (log_of (activate_user ascii_lower demo_http (PStr ''bob'') (0, []))) \<and>
   set (map fst [(''Id'', PInt 2), (''FirstName'', PStr ''Pat''), (''Email'', PStr ''pat@example.org''), (''Active'', PBool True)]) \<subseteq> set allowed \<and>
   (PutUser (PInt 4) [(''Id'', PInt 4), (''FirstName'', PStr ''Pat''), (''Email'', PStr ''pat@example.org''), (''Active'', PBool False),
        (''Region'', PStr []), (''Area'', PStr []), (''Country'', PStr [])], Inr (plain_response 200 []))
     \<in> set (log_of (deactivate_user ascii_lower demo_http (PStr ''dave'') (0, []))) \<and>
   set (map fst [(''Id'', PInt 4), (''FirstName'', PStr ''Pat''), (''Email'', PStr ''pat@example.org''), (''Active'', PBool False),
        (''Region'', PStr []), (''Area'', PStr []), (''Country'', PStr [])]) \<subseteq> set allowed \<union> {''Region'', ''Area'', ''Country''}"
proof -
  have m1: "(PutUser (PInt 2) [(''Id'', PInt 2), (''FirstName'', PStr ''Pat''), (''Email'', PStr ''pat@example.org''), (''Active'', PBool True)], Inr (plain_response 200 []))
     \<in> set (log_of (activate_user ascii_lower demo_http (PStr ''bob'') (0, [])))"
    by (simp add: run_defs demo_defs)
  have m2: "(PutUser (PInt 4) [(''Id'', PInt 4), (''FirstName'', PStr ''Pat''), (''Email'', PStr ''pat@example.org''), (''Active'', PBool False),
        (''Region'', PStr []), (''Area'', PStr []), (''Country'', PStr [])], Inr (plain_response 200 []))
     \<in> set (log_of (deactivate_user ascii_lower demo_http (PStr ''dave'') (0, [])))"
    by (simp add: run_defs demo_defs)
  note a = update_bodies [of ascii_lower demo_http "PStr ''bob''" 0, THEN conjunct1, rule_format, OF m1]
  note d = update_bodies [of ascii_lower demo_http "PStr ''dave''" 0, THEN conjunct2, rule_format, OF m2]
  have "set (map fst [(''Id'', PInt 2), (''FirstName'', PStr ''Pat''), (''Email'', PStr ''pat@example.org''), (''Active'', PBool True)]) \<subseteq> set allowed"
    using a [of "[(''Id'', PInt 2), (''FirstName'', PStr ''Pat''), (''Email'', PStr ''pat@example.org''), (''Active'', PBool True)]"] by simp
  moreover have "set (map fst [(''Id'', PInt 4), (''FirstName'', PStr ''Pat''), (''Email'', PStr ''pat@example.org''), (''Active'', PBool False),
        (''Region'', PStr []), (''Area'', PStr []), (''Country'', PStr [])]) \<subseteq> set allowed \<union> {''Region'', ''Area'', ''Country''}"
    using d [of "[(''Id'', PInt 4), (''FirstName'', PStr ''Pat''), (''Email'', PStr ''pat@example.org''), (''Active'', PBool False),
        (''Region'', PStr []), (''Area'', PStr []), (''Country'', PStr [])]"] by simp
  ultimately show ?thesis
    using m1 m2 by simp
qed

text \<open>
  The claim as the specification states it fails on every deactivation that reaches its
  update: the body sent for Dave holds \<^verbatim>\<open>Region\<close>, which is not in the allow-list.
\<close>

theorem update_bodies_counterexample:
  "(PutUser (PInt 4) [(''Id'', PInt 4), (''FirstName'', PStr ''Pat''), (''Email'', PStr ''pat@example.org''), (''Active'', PBool False),
        (''Region'', PStr []), (''Area'', PStr []), (''Country'', PStr [])], Inr (plain_response 200 []))
     \<in> set (log_of (deactivate_user ascii_lower demo_http (PStr ''dave'') (0, []))) \<and>
   \<not> set (map fst [(''Id'', PInt 4), (''FirstName'', PStr ''Pat''), (''Email'', PStr ''pat@example.org''), (''Active'', PBool False),
        (''Region'', PStr []), (''Area'', PStr []), (''Country'', PStr [])]) \<subseteq> set allowed"
  by (simp add: run_defs demo_defs)

text \<open>Evaluating the search on the small directory.\<close>

lemma demo_search:
  "demo_http (SearchUsers uname) 0 = (Inr (json_response demo_users), Suc 0)"
  "status_code (json_response demo_users) = 200"
  "json_of (json_response demo_users) = Inr demo_users"
  by (simp_all add: demo_http_def json_response_def)

lemma demo_find:
  "find_user_by_username ascii_lower demo_users (PStr ''alice'') = Inr (Some [(''Id'', PInt 1), (''UserName'', PStr ''Alice''), (''Active'', PBool True)])"
  "find_user_by_username ascii_lower demo_users (PStr ''bob'') = Inr (Some [(''Id'', PInt 2), (''UserName'', PStr ''bob''), (''Active'', PBool False)])"
  "find_user_by_username ascii_lower demo_users (PStr ''carol'') = Inr (Some [(''Id'', PInt 3), (''UserName'', PStr ''carol'')])"
  by code_simp+

lemma found_active:
  "map_of user ''Active'' = Some v \<Longrightarrow> user_truthy (Some user) \<and> dict_get user ''Active'' d = v"
  by (cases user) (auto simp: user_truthy_def dict_get_def)

text \<open>
  Claim C2. Let the search for \<open>uname\<close> return status 200 and a JSON body in which the
  lookup of lines 108-109 finds the record \<open>user\<close>. If the \<^verbatim>\<open>Active\<close> field of \<open>user\<close>
  is true, activation returns the failed result with the duplicate-activation message,
  its log is the search alone, and no update request is in it. If the field is false,
  deactivation returns the failed result with the duplicate-deactivation message, with
  the same log. This holds whatever the case mapping \<open>lower\<close> of the lookup is.
\<close>

theorem duplicate_state_is_refused:
  assumes "http (SearchUsers uname) w = (Inr r, w1)"
    and "status_code r = 200"
    and "json_of r = Inr users"
    and "find_user_by_username lower users uname = Inr (Some user)"
  shows "(map_of user ''Active'' = Some (PBool True) \<longrightarrow>
            activate_user lower http uname (w, []) =
              (\<lparr>username = uname, success = False,
                 message = ''Error: User is already active. Duplicate activation attempt.''\<rparr>,
               (w1, [(SearchUsers uname, Inr r)])) \<and>
            \<not> list_ex (\<lambda>x. put_body (fst x) \<noteq> None) (log_of (activate_user lower http uname (w, [])))) \<and>
         (map_of user ''Active'' = Some (PBool False) \<longrightarrow>
            deactivate_user lower http uname (w, []) =
              (\<lparr>username = uname, success = False,
                 message = ''Error: User is already inactive. Duplicate deactivation attempt.''\<rparr>,
               (w1, [(SearchUsers uname, Inr r)])) \<and>
            \<not> list_ex (\<lambda>x. put_body (fst x) \<noteq> None) (log_of (deactivate_user lower http uname (w, []))))"
proof (intro conjI impI)
  assume a: "map_of user ''Active'' = Some (PBool True)"
  have run: "activate_user lower http uname (w, []) =
              (\<lparr>username = uname, success = False,
                 message = ''Error: User is already active. Duplicate activation attempt.''\<rparr>,
               (w1, [(SearchUsers uname, Inr r)]))"
    using assms found_active [OF a, of "PBool False"]
    by (simp add: activate_user_def activate_try_def send_def)
  show "activate_user lower http uname (w, []) =
              (\<lparr>username = uname, success = False,
                 message = ''Error: User is already active. Duplicate activation attempt.''\<rparr>,
               (w1, [(SearchUsers uname, Inr r)]))"
    by (rule run)
  show "\<not> list_ex (\<lambda>x. put_body (fst x) \<noteq> None) (log_of (activate_user lower http uname (w, [])))"
    by (simp add: run)
next
  assume a: "map_of user ''Active'' = Some (PBool False)"
  have run: "deactivate_user lower http uname (w, []) =
              (\<lparr>username = uname, success = False,
                 message = ''Error: User is already inactive. Duplicate deactivation attempt.''\<rparr>,
               (w1, [(SearchUsers uname, Inr r)]))"
    using assms found_active [OF a, of "PBool True"]
    by (simp add: deactivate_user_def deactivate_try_def send_def)
  show "deactivate_user lower http uname (w, []) =
              (\<lparr>username = uname, success = False,
                 message = ''Error: User is already inactive. Duplicate deactivation attempt.''\<rparr>,
               (w1, [(SearchUsers uname, Inr r)]))"
    by (rule run)
  show "\<not> list_ex (\<lambda>x. put_body (fst x) \<noteq> None) (log_of (deactivate_user lower http uname (w, [])))"
    by (simp add: run)
qed

theorem duplicate_state_is_refused_witness:
  "activate_user ascii_lower demo_http (PStr ''alice'') (0, []) =
     (\<lparr>username = PStr ''alice'', success = False,
        message = ''Error: User is already active. Duplicate activation attempt.''\<rparr>,
      (Suc 0, [(SearchUsers (PStr ''alice''), Inr (json_response demo_users))])) \<and>
   deactivate_user ascii_lower demo_http (PStr ''bob'') (0, []) =
     (\<lparr>username = PStr ''bob'', success = False,
        message = ''Error: User is already inactive. Duplicate deactivation attempt.''\<rparr>,
      (Suc 0, [(SearchUsers (PStr ''bob''), Inr (json_response demo_users))]))"
  using duplicate_state_is_refused [where lower = ascii_lower and http = demo_http and uname = "PStr ''alice''" and w = 0, OF demo_search demo_find(1)]
    duplicate_state_is_refused [where lower = ascii_lower and http = demo_http and uname = "PStr ''bob''" and w = 0, OF demo_search demo_find(2)]
  by simp

text \<open>
  Claim C8. Deactivating a username whose search finds a record with \<^verbatim>\<open>Active\<close> false
  gives the result with that username, \<open>success = False\<close> and the message
  \<^verbatim>\<open>Error: User is already inactive. Duplicate deactivation attempt.\<close>, and the only
  request issued is the search: nothing beyond the search and the detail fetch (the
  detail fetch itself is not issued either, the guard of line 157 stands before it).
  This holds whatever the case mapping \<open>lower\<close> of the lookup is.
\<close>

theorem already_inactive_only_searches:
  assumes "http (SearchUsers uname) w = (Inr r, w1)"
    and "status_code r = 200"
    and "json_of r = Inr users"
    and "find_user_by_username lower users uname = Inr (Some user)"
    and "map_of user ''Active'' = Some (PBool False)"
  shows "fst (deactivate_user lower http uname (w, [])) =
           \<lparr>username = uname, success = False,
             message = ''Error: User is already inactive. Duplicate deactivation attempt.''\<rparr> \<and>
         map fst (log_of (deactivate_user lower http uname (w, []))) = [SearchUsers uname]"
  using assms found_active [OF assms(5), of "PBool True"]
  by (simp add: deactivate_user_def deactivate_try_def send_def)

theorem already_inactive_only_searches_witness:
  "fst (deactivate_user ascii_lower demo_http (PStr ''bob'') (0, [])) =
     \<lparr>username = PStr ''bob'', success = False,
       message = ''Error: User is already inactive. Duplicate deactivation attempt.''\<rparr> \<and>
   map fst (log_of (deactivate_user ascii_lower demo_http (PStr ''bob'') (0, []))) = [SearchUsers (PStr ''bob'')]"
  using already_inactive_only_searches [where lower = ascii_lower and http = demo_http and uname = "PStr ''bob''" and w = 0, OF demo_search demo_find(2)]
  by simp

lemma deactivate_update_fetches:
  "\<exists>out. (GetUserDetails uid, out) \<in> set (log_of (deactivate_update http uname uid s))"
proof (cases rule: deactivate_update_cases [of http uname uid s])
  case (put_succeeded r ud p u w3)
  let ?s3 = "(w3, snd s @ [(GetUserDetails uid, Inr r), (PutUser uid p, Inr u)])"
  have "filter (\<lambda>x. fst x = GetUserDetails uid) (log_of (team_cleanup http uname uid ?s3)) =
        filter (\<lambda>x. fst x = GetUserDetails uid) (snd ?s3)"
    by (rule team_cleanup_filter) auto
  then have "set (filter (\<lambda>x. fst x = GetUserDetails uid) (log_of (team_cleanup http uname uid ?s3))) =
        set (filter (\<lambda>x. fst x = GetUserDetails uid) (snd ?s3))"
    by simp
  then have "(GetUserDetails uid, Inr r) \<in> set (log_of (team_cleanup http uname uid ?s3))"
    by auto
  then show ?thesis
    unfolding put_succeeded(3) by blast
qed auto

lemma activate_update_fetches:
  "\<exists>out. (GetUserDetails uid, out) \<in> set (log_of (activate_update http uname uid s))"
  by (cases rule: activate_update_cases [of http uname uid s]) auto

text \<open>
  Claim C9. Let the search select a record \<open>user\<close> that has no \<^verbatim>\<open>Active\<close> field; the record
  is any one the lookup of lines 108-109 returns, with or without a \<^verbatim>\<open>UserName\<close> field.
  Then the test of the activation guard (line 116, default \<^verbatim>\<open>False\<close>) is false, so the
  record is read as inactive, and the test of the deactivation guard (line 157, default
  \<^verbatim>\<open>True\<close>) is false as well, so the same record is read as active. Neither operation
  takes its duplicate-state branch: every record that reaches the guards, that is every
  record but the empty dict, goes on to the block of lines 119 and 160 and has the detail
  fetch for its id issued; the empty dict is turned away by lines 111 and 152, before
  the guards, as \<^verbatim>\<open>User not found\<close>. This holds whatever the case mapping \<open>lower\<close> of
  the lookup is.
\<close>

theorem missing_active_passes_both_guards:
  assumes "http (SearchUsers uname) w = (Inr r, w1)"
    and "status_code r = 200"
    and "json_of r = Inr users"
    and "find_user_by_username lower users uname = Inr (Some user)"
    and "''Active'' \<notin> fst ` set user"
  shows "\<not> py_truthy (dict_get user ''Active'' (PBool False)) \<and>
         py_truthy (dict_get user ''Active'' (PBool True)) \<and>
         activate_try lower http uname (w, []) =
           (if user = [] then
              (Inr \<lparr>username = uname, success = False, message = ''User not found''\<rparr>,
               (w1, [(SearchUsers uname, Inr r)]))
            else activate_update http uname (dict_get user ''Id'' PNone) (w1, [(SearchUsers uname, Inr r)])) \<and>
         deactivate_try lower http uname (w, []) =
           (if user = [] then
              (Inr \<lparr>username = uname, success = False, message = ''User not found''\<rparr>,
               (w1, [(SearchUsers uname, Inr r)]))
            else deactivate_update http uname (dict_get user ''Id'' PNone) (w1, [(SearchUsers uname, Inr r)])) \<and>
         (user \<noteq> [] \<longrightarrow>
            (\<exists>out. (GetUserDetails (dict_get user ''Id'' PNone), out)
                     \<in> set (log_of (activate_user lower http uname (w, [])))) \<and>
            (\<exists>out. (GetUserDetails (dict_get user ''Id'' PNone), out)
                     \<in> set (log_of (deactivate_user lower http uname (w, [])))))"
proof -
  from assms(5) have none: "map_of user ''Active'' = None"
    by (simp add: map_of_eq_None_iff)
  have truthy: "user_truthy (Some user) \<longleftrightarrow> user \<noteq> []"
    by (cases user) (simp_all add: user_truthy_def)
  have g1: "\<not> py_truthy (dict_get user ''Active'' (PBool False))"
    and g2: "py_truthy (dict_get user ''Active'' (PBool True))"
    by (simp_all add: dict_get_def none)
  have a: "activate_try lower http uname (w, []) =
           (if user = [] then
              (Inr \<lparr>username = uname, success = False, message = ''User not found''\<rparr>,
               (w1, [(SearchUsers uname, Inr r)]))
            else activate_update http uname (dict_get user ''Id'' PNone) (w1, [(SearchUsers uname, Inr r)]))"
    using assms(1-4) truthy g1 by (simp add: activate_try_def send_def)
  have d: "deactivate_try lower http uname (w, []) =
           (if user = [] then
              (Inr \<lparr>username = uname, success = False, message = ''User not found''\<rparr>,
               (w1, [(SearchUsers uname, Inr r)]))
            else deactivate_update http uname (dict_get user ''Id'' PNone) (w1, [(SearchUsers uname, Inr r)]))"
    using assms(1-4) truthy g2 by (simp add: deactivate_try_def send_def)
  have f: "(\<exists>out. (GetUserDetails (dict_get user ''Id'' PNone), out)
                     \<in> set (log_of (activate_user lower http uname (w, [])))) \<and>
           (\<exists>out. (GetUserDetails (dict_get user ''Id'' PNone), out)
                     \<in> set (log_of (deactivate_user lower http uname (w, []))))"
    if ne: "user \<noteq> []"
  proof
    have a': "activate_try lower http uname (w, []) =
              activate_update http uname (dict_get user ''Id'' PNone) (w1, [(SearchUsers uname, Inr r)])"
      using a ne by simp
    show "\<exists>out. (GetUserDetails (dict_get user ''Id'' PNone), out)
                     \<in> set (log_of (activate_user lower http uname (w, [])))"
      unfolding activate_user_log a' by (rule activate_update_fetches)
    have d': "deactivate_try lower http uname (w, []) =
              deactivate_update http uname (dict_get user ''Id'' PNone) (w1, [(SearchUsers uname, Inr r)])"
      using d ne by simp
    show "\<exists>out. (GetUserDetails (dict_get user ''Id'' PNone), out)
                     \<in> set (log_of (deactivate_user lower http uname (w, [])))"
      unfolding deactivate_user_log d' by (rule deactivate_update_fetches)
  qed
  from f have f': "user \<noteq> [] \<longrightarrow>
            (\<exists>out. (GetUserDetails (dict_get user ''Id'' PNone), out)
                     \<in> set (log_of (activate_user lower http uname (w, [])))) \<and>
            (\<exists>out. (GetUserDetails (dict_get user ''Id'' PNone), out)
                     \<in> set (log_of (deactivate_user lower http uname (w, []))))"
    by (rule impI)
  from g1 g2 a d f' show ?thesis
    by (intro conjI)
qed

text \<open>
  Carol's record has no \<^verbatim>\<open>Active\<close> field: both operations fetch her details and send the
  update, which this directory answers with status 500. In the directory of nameless
  records the record with the id 7 is selected for the empty username, and both
  operations go on to the block that fetches the details of the id 7.
\<close>

theorem missing_active_passes_both_guards_witness:
  "map fst (log_of (activate_user ascii_lower demo_http (PStr ''carol'') (0, []))) =
     [SearchUsers (PStr ''carol''), GetUserDetails (PInt 3),
      PutUser (PInt 3) [(''Id'', PInt 3), (''FirstName'', PStr ''Pat''), (''Email'', PStr ''pat@example.org''),
                        (''Active'', PBool True)]] \<and>
   (\<exists>out. (GetUserDetails (PInt 3), out) \<in> set (log_of (deactivate_user ascii_lower demo_http (PStr ''carol'') (0, [])))) \<and>
   message (fst (activate_user ascii_lower demo_http (PStr ''carol'') (0, []))) = ''Failed to activate user: Server Error'' \<and>
   message (fst (deactivate_user ascii_lower demo_http (PStr ''carol'') (0, []))) = ''Failed to deactivate user: Server Error'' \<and>
   activate_try ascii_lower nameless_http (PStr []) (0, []) =
     activate_update nameless_http (PStr []) (PInt 7)
       (Suc 0, [(SearchUsers (PStr []), Inr (json_response nameless_users))]) \<and>
   deactivate_try ascii_lower nameless_http (PStr []) (0, []) =
     deactivate_update nameless_http (PStr []) (PInt 7)
       (Suc 0, [(SearchUsers (PStr []), Inr (json_response nameless_users))])"
proof -
  have l: "map fst (log_of (activate_user ascii_lower demo_http (PStr ''carol'') (0, []))) =
     [SearchUsers (PStr ''carol''), GetUserDetails (PInt 3),
      PutUser (PInt 3) [(''Id'', PInt 3), (''FirstName'', PStr ''Pat''), (''Email'', PStr ''pat@example.org''),
                        (''Active'', PBool True)]]"
    and m1: "message (fst (activate_user ascii_lower demo_http (PStr ''carol'') (0, []))) = ''Failed to activate user: Server Error''"
    and m2: "message (fst (deactivate_user ascii_lower demo_http (PStr ''carol'') (0, []))) = ''Failed to deactivate user: Server Error''"
    by (simp_all add: run_defs demo_defs)
  have n: "''Active'' \<notin> fst ` set [(''Id'', PInt 3), (''UserName'', PStr ''carol'')]"
    by simp
  have s: "nameless_http (SearchUsers (PStr [])) 0 = (Inr (json_response nameless_users), Suc 0)"
    "status_code (json_response nameless_users) = 200"
    "json_of (json_response nameless_users) = Inr nameless_users"
    by (simp_all add: nameless_http_def json_response_def)
  have k: "find_user_by_username ascii_lower nameless_users (PStr []) = Inr (Some [(''Id'', PInt 7)])"
    by (simp add: find_user_by_username_def nameless_users_def dict_get_def ascii_lower_def)
  have n': "''Active'' \<notin> fst ` set [(''Id'', PInt 7)]"
    by simp
  show ?thesis
    using missing_active_passes_both_guards [where lower = ascii_lower and http = demo_http and uname = "PStr ''carol''" and w = 0, OF demo_search demo_find(3) n]
      missing_active_passes_both_guards [where lower = ascii_lower and http = nameless_http and uname = "PStr []" and w = 0, OF s k n']
      l m1 m2
    by (simp add: dict_get_def)
qed

section \<open>Properties of the batch runner\<close>







text \<open>
  Claim C5, evaluated on the code. With an operation type that is neither
  \<^verbatim>\<open>activation\<close> nor \<^verbatim>\<open>deactivation\<close>, a batch with at least one row answers the
  error \<^verbatim>\<open>Invalid operation type\<close> with status 400 and issues no request. A batch with
  no row answers success with an empty result list and the tag \<^verbatim>\<open>Deactivation\<close>: the
  test of line 82 stands inside the loop and is never reached.
\<close>

theorem invalid_operation_type:
  assumes "operation_type \<noteq> Some ''activation''" and "operation_type \<noteq> Some ''deactivation''"
  shows "process_csv lower http operation_type usernames s =
           (if usernames = [] then BatchSuccess [] ''Deactivation''
            else BatchError 400 ''Invalid operation type'', s)"
  using assms by (cases usernames) (simp_all add: process_csv_def)

theorem invalid_operation_type_witness:
  "process_csv ascii_lower demo_http (Some ''bogus'') [] (0, []) = (BatchSuccess [] ''Deactivation'', (0, [])) \<and>
   process_csv ascii_lower demo_http None [PStr ''bob''] (0, []) =
     (BatchError 400 ''Invalid operation type'', (0, []))"
  using invalid_operation_type [of "Some ''bogus''" ascii_lower demo_http "[]" "(0, [])"]
    invalid_operation_type [of None ascii_lower demo_http "[PStr ''bob'']" "(0, [])"]
  by simp

end
